theory Spec2Isabelle
  imports Main "HOL-Library.Word" "HOL-Library.AList"
begin

unbundle bit_operations_syntax

section \<open>Strings\<close>

text \<open>
  A JavaScript string is a sequence of UTF-16 code units.  The model uses \<^typ>\<open>string\<close>,
  whose characters are the code units U+0000 .. U+00FF; code units above that range
  (among them the line separators U+2028 and U+2029 and the other Unicode spaces) do not
  occur in the model.  The double quote is written \<open>CHR 0x22\<close>.
\<close>

definition dquote :: char where
  "dquote = CHR 0x22"

text \<open>
  The characters that \<open>.\<close> of a regular expression does not match (no \<open>s\<close> flag):
  line feed and carriage return.
\<close>

definition lineTerminator :: "char \<Rightarrow> bool" where
  "lineTerminator c = (c = CHR 0x0A \<or> c = CHR 0x0D)"

text \<open>
  \<open>String.prototype.trim\<close> removes white space and line terminators from both ends:
  tab, line feed, vertical tab, form feed, carriage return, space, no-break space.
\<close>

definition whiteSpace :: "char \<Rightarrow> bool" where
  "whiteSpace c = (c = CHR 0x09 \<or> c = CHR 0x0A \<or> c = CHR 0x0B \<or> c = CHR 0x0C \<or>
                   c = CHR 0x0D \<or> c = CHR 0x20 \<or> c = CHR 0xA0)"

definition trim :: "string \<Rightarrow> string" where
  "trim s = rev (dropWhile whiteSpace (rev (dropWhile whiteSpace s)))"



text \<open>
  \<open>Number.prototype.toString\<close> of an integer-valued Number, radix 10 (event identifiers
  are integers; fractions, \<open>NaN\<close> and the infinities are not modelled).  A Number is a
  binary64 float: an integer \<open>v\<close> of more than 53 bits is a Number when it is
  \<open>m * 2 ^ e\<close> with \<open>2 ^ 52 \<le> m < 2 ^ 53\<close>, and then the integers that round to \<open>v\<close>
  (to nearest, ties to the even significand) form an interval around it.  The digits
  printed are those of the integer of that interval with the fewest significant digits,
  the closest to \<open>v\<close> if there are several (the choice every engine makes where
  ECMA-262 leaves the last digit open): \<open>2 ^ 60\<close> prints as \<open>1152921504606847000\<close>.
  Up to 21 digits are printed in full, a longer number in exponent form.  Below
  \<open>2 ^ 53\<close> the interval is the number alone and all its digits are printed.
\<close>

definition digitChar :: "nat \<Rightarrow> char" where
  "digitChar d = ''0123456789'' ! (d mod 10)"

function natToString :: "nat \<Rightarrow> string" where
  "natToString n = (if n < 10 then [digitChar n] else natToString (n div 10) @ [digitChar n])"
  by pat_completeness auto
termination
  by (relation "measure (\<lambda>n. n)") auto

declare natToString.simps [simp del]

function bitLength :: "nat \<Rightarrow> nat" where
  "bitLength v = (if v = 0 then 0 else Suc (bitLength (v div 2)))"
  by pat_completeness auto
termination
  by (relation "measure (\<lambda>v. v)") auto

declare bitLength.simps [simp del]

text \<open>The exponent \<open>e\<close> of the unit in the last place of \<open>v\<close>: 0 up to 53 bits.\<close>

definition ulpExponent :: "nat \<Rightarrow> nat" where
  "ulpExponent v = bitLength v - 53"

text \<open>
  \<open>numberValueIs v c\<close>: the integer \<open>c\<close> rounds to the Number \<open>v\<close>.  The next Number up
  is \<open>2 ^ e\<close> away; so is the next one down, unless \<open>v\<close> is a power of two, where it is
  half as far.  A midpoint rounds to \<open>v\<close> when the significand of \<open>v\<close> is even.
\<close>

definition numberValueIs :: "nat \<Rightarrow> nat \<Rightarrow> bool" where
  "numberValueIs v c =
     (let e = ulpExponent v;
          m = v div 2 ^ e;
          up = 2 ^ e;
          down = (if m = 2 ^ 52 then 2 ^ (e - 1) else 2 ^ e)
      in if v \<le> c
         then (if even m then 2 * (c - v) \<le> up else 2 * (c - v) < up)
         else (if even m then 2 * (v - c) \<le> down else 2 * (v - c) < down))"

text \<open>
  The search for the fewest digits: for \<open>j\<close> trailing zeros, from the largest \<open>j\<close> down,
  the two multiples of \<open>10 ^ j\<close> around \<open>v\<close>.
\<close>

fun shortestDigits :: "nat \<Rightarrow> nat \<Rightarrow> nat" where
  "shortestDigits v 0 = v"
| "shortestDigits v (Suc j) =
     (let lo = (v div 10 ^ Suc j) * 10 ^ Suc j;
          hi = lo + 10 ^ Suc j
      in if numberValueIs v lo \<and> numberValueIs v hi
         then (if v - lo < hi - v \<or> (v - lo = hi - v \<and> even (v div 10 ^ Suc j)) then lo else hi)
         else if numberValueIs v lo then lo
         else if numberValueIs v hi then hi
         else shortestDigits v j)"

definition stripZeros :: "string \<Rightarrow> string" where
  "stripZeros ds = rev (dropWhile (\<lambda>c. c = CHR ''0'') (rev ds))"

definition positiveToString :: "nat \<Rightarrow> string" where
  "positiveToString v =
     (let ds = natToString (shortestDigits v (length (natToString v) - 1));
          n = length ds;
          s = stripZeros ds
      in if n \<le> 21 then ds
         else if length s = 1 then s @ ''e+'' @ natToString (n - 1)
         else hd s # CHR ''.'' # tl s @ ''e+'' @ natToString (n - 1))"

definition numberToString :: "int \<Rightarrow> string" where
  "numberToString i =
     (if i < 0 then CHR ''-'' # positiveToString (nat (- i)) else positiveToString (nat i))"

section \<open>Data model (types/events.types.ts)\<close>

record SocialMedia =
  facebook :: string
  linkedIn :: string
  instagram :: string
  youtube :: string
  tiktok :: string

record CrmEvent =
  title :: string
  featuredImage :: string
  pageContent :: string
  imagesCarousel :: string
  startDate :: string
  endDate :: string
  location :: "string option"
  eventAudiences :: "string option"
  eventSectors :: "string list"
  eventId :: int
  eventType :: string
  eventVenues :: "string list"
  eventOrganiser :: string
  websiteURL :: "string option"
  dWTCEvent :: bool
  eventLogo :: "string option"
  socialMedia :: SocialMedia
  lastUpdatedDate :: string
  WebsiteStatus :: string

text \<open>
  The fields of \<open>UmbracoEvent\<close> carry the suffix \<open>_u\<close>, since two of them share their
  names with fields of \<open>CrmEvent\<close>.
\<close>

record UmbracoEvent =
  id_u :: string
  eventId_u :: string
  lastUpdatedDate_u :: string
  name_u :: string

record SyncResult =
  toUpdate :: "(UmbracoEvent \<times> CrmEvent) list"
  toCreate :: "CrmEvent list"

section \<open>normalizeDateString\<close>

text \<open>
  \<open>dateString.replace(/^"(.*)"$/, "$1")\<close>.  The pattern is anchored at both ends of the
  input (no \<open>m\<close> flag), so it matches only the whole string: a quote, a run of characters
  none of which is a line terminator, and a quote that is the last character.  The group
  is then the text between the first and the last character, and it replaces the match.
  A string the pattern does not match is returned as it is.
\<close>

definition matchQuoted :: "string \<Rightarrow> string option" where
  "matchQuoted s =
     (if 2 \<le> length s \<and> hd s = dquote \<and> last s = dquote
         \<and> \<not> list_ex lineTerminator (butlast (tl s))
      then Some (butlast (tl s)) else None)"

definition normalizeDateString :: "string \<Rightarrow> string" where
  "normalizeDateString dateString =
     (case matchQuoted dateString of Some g \<Rightarrow> g | None \<Rightarrow> dateString)"

section \<open>filterEventsByVenue\<close>



section \<open>compareEvents\<close>

text \<open>
  \<open>umbracoMap\<close> is a \<open>Map<string, UmbracoEvent>\<close> filled by \<open>set\<close> in input order.
\<close>

definition umbracoMap_of :: "UmbracoEvent list \<Rightarrow> (string \<rightharpoonup> UmbracoEvent)" where
  "umbracoMap_of umbracoEvents =
     foldl (\<lambda>m event. m(eventId_u event \<mapsto> event)) Map.empty umbracoEvents"

text \<open>
  The body of the loop over \<open>crmEvents\<close>.  A value stored in the map is an object, hence
  truthy: the test \<open>if (umbracoEvent)\<close> asks whether the key is present.
\<close>

definition compareEvents_step ::
  "(string \<rightharpoonup> UmbracoEvent) \<Rightarrow> SyncResult \<Rightarrow> CrmEvent \<Rightarrow> SyncResult" where
  "compareEvents_step umbracoMap r crmEvent =
     (let crmEventId = numberToString (eventId crmEvent)
      in case umbracoMap crmEventId of
           Some umbracoEvent \<Rightarrow>
             (let normalizedCrmDate = normalizeDateString (lastUpdatedDate crmEvent);
                  normalizedUmbracoDate = normalizeDateString (lastUpdatedDate_u umbracoEvent)
              in if normalizedCrmDate \<noteq> normalizedUmbracoDate
                 then r\<lparr>toUpdate := toUpdate r @ [(umbracoEvent, crmEvent)]\<rparr>
                 else r)
         | None \<Rightarrow> r\<lparr>toCreate := toCreate r @ [crmEvent]\<rparr>)"

definition compareEvents :: "CrmEvent list \<Rightarrow> UmbracoEvent list \<Rightarrow> SyncResult" where
  "compareEvents crmEvents umbracoEvents =
     foldl (compareEvents_step (umbracoMap_of umbracoEvents))
           \<lparr>toUpdate = [], toCreate = []\<rparr> crmEvents"

text \<open>
  The specification's wording of the normalisation, for comparison with
  \<open>normalizeDateString\<close>: a single layer of wrapping quote characters is stripped.
\<close>

definition stripWrappingQuotes_spec :: "string \<Rightarrow> string" where
  "stripWrappingQuotes_spec s =
     (if 2 \<le> length s \<and> hd s = dquote \<and> last s = dquote then butlast (tl s) else s)"

text \<open>
  The markers on which the pattern of \<open>normalizeDateString\<close> and the specification's
  wording part: wrapped in quotes, with a line terminator between the quotes.
\<close>

definition quotedAcrossLines :: "string \<Rightarrow> bool" where
  "quotedAcrossLines s =
     (2 \<le> length s \<and> hd s = dquote \<and> last s = dquote
      \<and> list_ex lineTerminator (butlast (tl s)))"

text \<open>
  What the loop body appends to \<open>toUpdate\<close> for one CRM event, as a value.
\<close>

definition updateOf :: "(string \<rightharpoonup> UmbracoEvent) \<Rightarrow> CrmEvent \<Rightarrow> (UmbracoEvent \<times> CrmEvent) option" where
  "updateOf m e =
     (case m (numberToString (eventId e)) of
        None \<Rightarrow> None
      | Some u \<Rightarrow> if normalizeDateString (lastUpdatedDate e) \<noteq> normalizeDateString (lastUpdatedDate_u u)
                  then Some (u, e) else None)"


text \<open>
  The positions of the CRM input by what the loop body does there: the key is absent
  from the map; present with a different normalised marker; present with the same one.
\<close>

definition createdAt :: "CrmEvent list \<Rightarrow> UmbracoEvent list \<Rightarrow> nat set" where
  "createdAt crm ums =
     {i. i < length crm \<and> umbracoMap_of ums (numberToString (eventId (crm ! i))) = None}"

definition updatedAt :: "CrmEvent list \<Rightarrow> UmbracoEvent list \<Rightarrow> nat set" where
  "updatedAt crm ums =
     {i. i < length crm \<and>
         (\<exists>u. umbracoMap_of ums (numberToString (eventId (crm ! i))) = Some u \<and>
              normalizeDateString (lastUpdatedDate (crm ! i)) \<noteq>
              normalizeDateString (lastUpdatedDate_u u))}"

definition syncedAt :: "CrmEvent list \<Rightarrow> UmbracoEvent list \<Rightarrow> nat set" where
  "syncedAt crm ums =
     {i. i < length crm \<and>
         (\<exists>u. umbracoMap_of ums (numberToString (eventId (crm ! i))) = Some u \<and>
              normalizeDateString (lastUpdatedDate (crm ! i)) =
              normalizeDateString (lastUpdatedDate_u u))}"

section \<open>JSON values\<close>

text \<open>
  The object and array literals the module builds.  An object is the list of its
  properties in the order of the literal; numbers are integers.
\<close>

datatype json =
    JNull
  | JBool bool
  | JNum int
  | JStr string
  | JArr "json list"
  | JObj "(string \<times> json) list"

text \<open>
  Two shapes the source writes out many times: a rich-text value with its empty block
  list, and a link item (the keys in the order of the source).
\<close>

definition richText :: "string \<Rightarrow> json" where
  "richText markup =
     JObj [(''markup'', JStr markup),
           (''blocks'', JObj [(''layout'', JNull), (''contentData'', JArr []),
                              (''settingsData'', JArr [])])]"

definition linkItem :: "string \<Rightarrow> json \<Rightarrow> json \<Rightarrow> json \<Rightarrow> json \<Rightarrow> string \<Rightarrow> json" where
  "linkItem icon name nodeName target udi url =
     JObj [(''icon'', JStr icon), (''name'', name), (''nodeName'', nodeName),
           (''published'', JBool True), (''queryString'', JNull), (''target'', target),
           (''trashed'', JBool False), (''udi'', udi), (''url'', JStr url)]"

text \<open>\<open>a || b\<close> on strings: the empty string is falsy.\<close>

definition strOr :: "string \<Rightarrow> string \<Rightarrow> string" where
  "strOr a b = (if a = [] then b else a)"

text \<open>Truthiness of a \<open>string | null\<close>: neither \<open>null\<close> nor empty.\<close>

definition truthyStr :: "string option \<Rightarrow> bool" where
  "truthyStr v = (case v of None \<Rightarrow> False | Some s \<Rightarrow> s \<noteq> [])"

section \<open>generateGuid\<close>

text \<open>
  The random source: \<open>rnd i\<close> is \<open>(Math.random() * 16) | 0\<close> at the \<open>i\<close>-th call of
  \<open>Math.random\<close>, a number from 0 to 15.  The counter of calls is threaded through
  every function that draws.
\<close>

type_synonym random = "nat \<Rightarrow> 4 word"

text \<open>\<open>v.toString(16)\<close> for a number from 0 to 15: one lower-case hexadecimal digit.\<close>

definition hexDigit :: "4 word \<Rightarrow> char" where
  "hexDigit v = ''0123456789abcdef'' ! unat v"

definition toString16 :: "4 word \<Rightarrow> string" where
  "toString16 v = [hexDigit v]"

text \<open>
  \<open>template.replace(/[xy]/g, callback)\<close>: the characters from left to right, each \<open>x\<close>
  or \<open>y\<close> replaced by what the callback returns for it, one draw per call.
\<close>

fun replaceXY :: "random \<Rightarrow> nat \<Rightarrow> string \<Rightarrow> string \<times> nat" where
  "replaceXY rnd n [] = ([], n)"
| "replaceXY rnd n (c # cs) =
     (if c = CHR ''x'' \<or> c = CHR ''y''
      then (let r = rnd n;
                v = (if c = CHR ''x'' then r else (r AND 3) OR 8);
                (rest, n') = replaceXY rnd (Suc n) cs
            in (toString16 v @ rest, n'))
      else (let (rest, n') = replaceXY rnd n cs in (c # rest, n')))"

definition generateGuid :: "random \<Rightarrow> nat \<Rightarrow> string \<times> nat" where
  "generateGuid rnd n = replaceXY rnd n ''xxxxxxxx-xxxx-4xxx-yxxx-xxxxxxxxxxxx''"

text \<open>\<open>guid.replace(/-/g, "")\<close> and the element URI built from it.\<close>

definition removeHyphens :: "string \<Rightarrow> string" where
  "removeHyphens guid = filter (\<lambda>c. c \<noteq> CHR ''-'') guid"

definition elementUdi :: "string \<Rightarrow> string" where
  "elementUdi guidWithoutHyphens = ''umb://element/'' @ guidWithoutHyphens"

text \<open>For the statements about identifiers: a lower-case hexadecimal digit.\<close>

definition lowerHexDigit :: "char \<Rightarrow> bool" where
  "lowerHexDigit c = (c \<in> set ''0123456789abcdef'')"

section \<open>buildSocialNetworksBlockList\<close>

definition socialNetworks_of :: "SocialMedia \<Rightarrow> (string \<times> string \<times> string) list" where
  "socialNetworks_of sm =
     [(''facebook'', ''Facebook'', facebook sm),
      (''linkedIn'', ''LinkedIn'', linkedIn sm),
      (''instagram'', ''Instagram'', instagram sm),
      (''youtube'', ''Youtube'', youtube sm),
      (''tiktok'', ''TikTok'', tiktok sm)]"

text \<open>The content entry pushed for one network.\<close>

definition socialNetworkBlock :: "string \<Rightarrow> string \<Rightarrow> string \<Rightarrow> json" where
  "socialNetworkBlock udi name url =
     JObj [(''contentTypeKey'', JStr ''93f63d80-3828-4be7-9043-143bd100ca14''),
           (''udi'', JStr udi),
           (''socialNetwork'', JArr [JStr name]),
           (''link'', JArr [linkItem ''icon-link'' JNull JNull (JStr ''_blank'') JNull url])]"

text \<open>
  The body of the loop over the five networks; the state is \<open>layout\<close>, \<open>contentData\<close>
  and the counter of draws.
\<close>

definition socialNetwork_step ::
  "random \<Rightarrow> json list \<times> json list \<times> nat \<Rightarrow> string \<times> string \<times> string
     \<Rightarrow> json list \<times> json list \<times> nat" where
  "socialNetwork_step rnd st network =
     (case st of (layout, contentData, n) \<Rightarrow>
      case network of (key, name, url) \<Rightarrow>
        if url \<noteq> [] \<and> trim url \<noteq> []
        then (let (guid, n') = generateGuid rnd n;
                  guidWithoutHyphens = removeHyphens guid;
                  udi = elementUdi guidWithoutHyphens
              in (layout @ [JObj [(''contentUdi'', JStr udi)]],
                  contentData @ [socialNetworkBlock udi name url],
                  n'))
        else st)"

definition buildSocialNetworksBlockList :: "random \<Rightarrow> nat \<Rightarrow> SocialMedia \<Rightarrow> json \<times> nat" where
  "buildSocialNetworksBlockList rnd n sm =
     (let (layout, contentData, n') =
            foldl (socialNetwork_step rnd) ([], [], n) (socialNetworks_of sm)
      in (JObj [(''layout'', JObj [(''Umbraco.BlockList'', JArr layout)]),
                (''contentData'', JArr contentData),
                (''settingsData'', JArr [])],
          n'))"

section \<open>buildPageBlocks\<close>

text \<open>
  The ten Arabic text literals of the static blocks lie outside the character range of
  the model's strings.  No operation of the module reads them; they are a parameter of
  the model, one field per literal, in the order of the source.
\<close>

record ArabicText =
  gettingHereTitle :: string
  gettingHereSubtitleMarkup :: string
  gettingHereDescriptionMarkup :: string
  gettingHereLinkName :: string
  destinationListTitle :: string
  destinationListSubtitle :: string
  destinationCardTitle :: string
  destinationCardSubtitleMarkup :: string
  destinationCardDescriptionMarkup :: string
  destinationCardLinkName :: string

text \<open>
  The block literals.  The hero-image and image-gallery blocks are emitted empty.  The
  event-description block is written twice in the source, once per locale, and differs
  in the \<open>target\<close> of the organiser's link only (\<open>null\<close> for English, \<open>_blank\<close> for
  Arabic); the spread \<open>...(crmEvent.websiteURL && {organiserWebsite: [...]})\<close> adds its
  property only for a truthy URL.  The "Getting Here" and "Destination Dubai" cards share
  one shape.
\<close>

definition heroImageBlock :: "string \<Rightarrow> json" where
  "heroImageBlock udi =
     JObj [(''contentTypeKey'', JStr ''fd8b22e5-6560-40ea-8f24-4da5ca390b91''),
           (''udi'', JStr udi),
           (''image'', JArr [])]"

definition eventDescriptionBlock :: "CrmEvent \<Rightarrow> string \<Rightarrow> json \<Rightarrow> json \<Rightarrow> json" where
  "eventDescriptionBlock crmEvent udi target socialNetworks =
     JObj ([(''contentTypeKey'', JStr ''163c1761-234c-41f4-92e5-9d3d26186b79''),
            (''udi'', JStr udi),
            (''description'', richText (''<p>'' @ strOr (pageContent crmEvent) [] @ ''</p>'')),
            (''organiserLogo'', JArr []),
            (''organiserName'', JStr (strOr (eventOrganiser crmEvent) []))]
           @ (if truthyStr (websiteURL crmEvent)
              then [(''organiserWebsite'',
                     JArr [linkItem ''icon-link'' JNull JNull target JNull
                             (the (websiteURL crmEvent))])]
              else [])
           @ [(''socialNetworks'', socialNetworks)])"

definition imageGalleryBlock :: "string \<Rightarrow> json" where
  "imageGalleryBlock udi =
     JObj [(''contentTypeKey'', JStr ''a56add81-856e-4004-8e61-30cc04962297''),
           (''udi'', JStr udi),
           (''images'', JArr [])]"

definition cardBlock ::
  "string \<Rightarrow> string \<Rightarrow> string \<Rightarrow> string \<Rightarrow> json \<Rightarrow> string \<Rightarrow> string \<Rightarrow> string \<Rightarrow> json" where
  "cardBlock udi cardTitle subtitleMarkup descriptionMarkup link imageKey mediaKey leftImage =
     JObj [(''contentTypeKey'', JStr ''c12716ad-f907-4621-b2e4-1b242d63974e''),
           (''udi'', JStr udi),
           (''logo'', JArr []),
           (''title'', JStr cardTitle),
           (''subtitle'', richText subtitleMarkup),
           (''description'', richText descriptionMarkup),
           (''link'', JArr [link]),
           (''image'', JArr [JObj [(''key'', JStr imageKey), (''mediaKey'', JStr mediaKey),
                                   (''crops'', JArr []), (''focalPoint'', JNull)]]),
           (''video'', JStr []),
           (''leftImage'', JStr leftImage),
           (''locationTitle'', JStr []),
           (''locationItems'', JStr [])]"

definition destinationListBlock :: "string \<Rightarrow> string \<Rightarrow> string \<Rightarrow> json \<Rightarrow> json" where
  "destinationListBlock udi listTitle subtitle items =
     JObj [(''contentTypeKey'', JStr ''f4965fd3-b550-41c3-997e-1fd7059fe015''),
           (''udi'', JStr udi),
           (''title'', JStr listTitle),
           (''subtitle'', JStr subtitle),
           (''description'', JStr []),
           (''displayNotch'', JStr ''0''),
           (''items'', items)]"

definition gettingHereLink :: "string \<Rightarrow> json" where
  "gettingHereLink linkName =
     linkItem ''icon-article color-deep-purple'' (JStr linkName) (JStr ''Getting Here'') JNull
       (JStr ''umb://document/e079f2d2051b43259dbebe3c82bef8cf'') ''/dec/getting-here/''"

definition destinationDubaiLink :: "string \<Rightarrow> json" where
  "destinationDubaiLink linkName =
     linkItem ''icon-article color-deep-purple'' (JStr linkName) (JStr ''Destination Dubai'') JNull
       (JStr ''umb://document/58a786fbf4ec4f9397dca699d4c74f01'') ''/dec/destination-dubai/''"

definition blockList :: "string list \<Rightarrow> json list \<Rightarrow> json" where
  "blockList udis contentData =
     JObj [(''layout'',
            JObj [(''Umbraco.BlockList'', JArr (map (\<lambda>udi. JObj [(''contentUdi'', JStr udi)]) udis))]),
           (''contentData'', JArr contentData),
           (''settingsData'', JArr [])]"

definition englishBlocks :: "CrmEvent \<Rightarrow> json \<Rightarrow> string \<Rightarrow> string \<Rightarrow> string \<Rightarrow> string \<Rightarrow> string \<Rightarrow> json" where
  "englishBlocks crmEvent socialNetworks enHeroImageGuid enEventDescGuid enGettingHereGuid
       enDestinationDubaiListGuid enDestinationDubaiCardGuid =
     blockList
       [elementUdi enHeroImageGuid, elementUdi enEventDescGuid, elementUdi enGettingHereGuid,
        elementUdi enDestinationDubaiListGuid, elementUdi enDestinationDubaiCardGuid]
       [heroImageBlock (elementUdi enHeroImageGuid),
        eventDescriptionBlock crmEvent (elementUdi enEventDescGuid) JNull socialNetworks,
        cardBlock (elementUdi enGettingHereGuid) ''Getting Here''
          ''<p>Fastest, easiest route to the venue</p>''
          ''<p>Benefiting from Dubai South's world-class infrastructure, getting to Dubai Exhibition Centre is easy.</p>''
          (gettingHereLink ''Plan your visit'')
          ''d092581b-7712-4dd5-8bb0-ecf82ec05332'' ''c4651b2c-4ca5-4c99-9dbb-816542f6d793'' ''1'',
        destinationListBlock (elementUdi enDestinationDubaiListGuid) ''Destination Dubai''
          ''Explore what's happening around Dubai this month'' (JStr []),
        cardBlock (elementUdi enDestinationDubaiCardGuid) ''Destination Dubai''
          ''<p>Make the most of your time in Dubai<br><br></p>''
          ''<p>Experience the best of Dubai, with top attractions, world-class dining, shopping, and entertainment within reach of Dubai Exhibition Centre.</p>''
          (destinationDubaiLink ''Find out more'')
          ''1d345bd4-ee7f-4a79-b3d0-1246a37e39dc'' ''aa57deab-5ea6-4a7e-a6ea-1afbc034cd2d'' ''0'']"

definition arabicBlocks ::
  "ArabicText \<Rightarrow> CrmEvent \<Rightarrow> json \<Rightarrow> string \<Rightarrow> string \<Rightarrow> string \<Rightarrow> string \<Rightarrow> string \<Rightarrow> string \<Rightarrow> json" where
  "arabicBlocks ar crmEvent socialNetworks arHeroImageGuid arEventDescGuid arImageGalleryGuid
       arGettingHereGuid arDestinationDubaiListGuid arDestinationDubaiCardGuid =
     blockList
       [elementUdi arHeroImageGuid, elementUdi arEventDescGuid, elementUdi arImageGalleryGuid,
        elementUdi arGettingHereGuid, elementUdi arDestinationDubaiListGuid,
        elementUdi arDestinationDubaiCardGuid]
       [heroImageBlock (elementUdi arHeroImageGuid),
        eventDescriptionBlock crmEvent (elementUdi arEventDescGuid) (JStr ''_blank'') socialNetworks,
        imageGalleryBlock (elementUdi arImageGalleryGuid),
        cardBlock (elementUdi arGettingHereGuid) (gettingHereTitle ar)
          (gettingHereSubtitleMarkup ar) (gettingHereDescriptionMarkup ar)
          (gettingHereLink (gettingHereLinkName ar))
          ''a04adc53-cc3f-4924-b8b7-31174b403b46'' ''810c9d1c-cbaa-4e23-aa2c-e04d3c081a2f'' ''1'',
        destinationListBlock (elementUdi arDestinationDubaiListGuid) (destinationListTitle ar)
          (destinationListSubtitle ar) (blockList [] []),
        cardBlock (elementUdi arDestinationDubaiCardGuid) (destinationCardTitle ar)
          (destinationCardSubtitleMarkup ar) (destinationCardDescriptionMarkup ar)
          (destinationDubaiLink (destinationCardLinkName ar))
          ''1d345bd4-ee7f-4a79-b3d0-1246a37e39dc'' ''aa57deab-5ea6-4a7e-a6ea-1afbc034cd2d'' ''0'']"

text \<open>
  Eleven identifiers are drawn, the English ones first, then the social-networks block
  list is built once and placed in both event-description blocks.
\<close>

definition buildPageBlocks :: "ArabicText \<Rightarrow> random \<Rightarrow> nat \<Rightarrow> CrmEvent \<Rightarrow> json \<times> nat" where
  "buildPageBlocks ar rnd n0 crmEvent =
     (let (g1, n1) = generateGuid rnd n0; enHeroImageGuid = removeHyphens g1;
          (g2, n2) = generateGuid rnd n1; enEventDescGuid = removeHyphens g2;
          (g3, n3) = generateGuid rnd n2; enGettingHereGuid = removeHyphens g3;
          (g4, n4) = generateGuid rnd n3; enDestinationDubaiListGuid = removeHyphens g4;
          (g5, n5) = generateGuid rnd n4; enDestinationDubaiCardGuid = removeHyphens g5;
          (g6, n6) = generateGuid rnd n5; arHeroImageGuid = removeHyphens g6;
          (g7, n7) = generateGuid rnd n6; arEventDescGuid = removeHyphens g7;
          (g8, n8) = generateGuid rnd n7; arImageGalleryGuid = removeHyphens g8;
          (g9, n9) = generateGuid rnd n8; arGettingHereGuid = removeHyphens g9;
          (g10, n10) = generateGuid rnd n9; arDestinationDubaiListGuid = removeHyphens g10;
          (g11, n11) = generateGuid rnd n10; arDestinationDubaiCardGuid = removeHyphens g11;
          (socialNetworks, n12) = buildSocialNetworksBlockList rnd n11 (socialMedia crmEvent)
      in (JObj [(''en-US'',
                 englishBlocks crmEvent socialNetworks enHeroImageGuid enEventDescGuid
                   enGettingHereGuid enDestinationDubaiListGuid enDestinationDubaiCardGuid),
                (''ar'',
                 arabicBlocks ar crmEvent socialNetworks arHeroImageGuid arEventDescGuid
                   arImageGalleryGuid arGettingHereGuid arDestinationDubaiListGuid
                   arDestinationDubaiCardGuid)],
          n12))"

section \<open>mapCrmEventToUmbraco\<close>

definition localized :: "json \<Rightarrow> json" where
  "localized v = JObj [(''en-US'', v), (''ar'', v)]"

definition invariant :: "json \<Rightarrow> json" where
  "invariant v = JObj [(''$invariant'', v)]"

text \<open>
  The properties from \<open>title\<close> to \<open>industry\<close>, which the create and the update payload
  write in the same way and order; \<open>organiserSocialNetworks\<close> is the social-networks
  block list built while the literal is evaluated.
\<close>

definition eventFields :: "CrmEvent \<Rightarrow> json \<Rightarrow> (string \<times> json) list" where
  "eventFields crmEvent organiserSocialNetworks =
     [(''title'', localized (JStr (title crmEvent))),
      (''description'', localized (JStr (strOr (pageContent crmEvent) []))),
      (''metadataTitle'', localized (JStr (title crmEvent))),
      (''metadataDescription'', localized (JStr (strOr (pageContent crmEvent) []))),
      (''metadataKeywords'', localized (JStr [])),
      (''date'', invariant (JStr (startDate crmEvent))),
      (''category'',
       invariant (if eventType crmEvent \<noteq> [] then JArr [JStr (eventType crmEvent)] else JArr [])),
      (''endDate'', invariant (JStr (endDate crmEvent))),
      (''organiserName'', invariant (JStr (strOr (eventOrganiser crmEvent) [])))]
     @ (if truthyStr (websiteURL crmEvent)
        then [(''organiserWebsite'',
               invariant (JArr [linkItem ''icon-link'' (JStr (the (websiteURL crmEvent))) JNull
                                  JNull JNull (the (websiteURL crmEvent))]))]
        else [])
     @ [(''organiserSocialNetworks'', invariant organiserSocialNetworks),
        (''eventId'', invariant (JStr (numberToString (eventId crmEvent)))),
        (''lastUpdatedDate'', invariant (JStr ([dquote] @ lastUpdatedDate crmEvent @ [dquote]))),
        (''location'',
         invariant (if truthyStr (location crmEvent) then JStr (the (location crmEvent)) else JNull)),
        (''eventVenue'', invariant (JArr (map JStr (eventVenues crmEvent)))),
        (''newEventVenue'', invariant (JArr [])),
        (''audience'',
         invariant (if truthyStr (eventAudiences crmEvent)
                    then JArr [JStr (the (eventAudiences crmEvent))] else JArr [])),
        (''industry'', invariant (JArr (map JStr (eventSectors crmEvent))))]"

text \<open>
  \<open>parentId\<close> is an optional parameter: \<open>None\<close> when the caller passes none.  The test
  \<open>if (parentId)\<close> is truthiness.
\<close>

definition baseData :: "ArabicText \<Rightarrow> random \<Rightarrow> nat \<Rightarrow> CrmEvent \<Rightarrow> (string \<times> json) list \<times> nat" where
  "baseData ar rnd n0 crmEvent =
     (let (organiserSocialNetworks, n1) =
            buildSocialNetworksBlockList rnd n0 (socialMedia crmEvent);
          (pageBlocks, n2) = buildPageBlocks ar rnd n1 crmEvent
      in ([(''name'', localized (JStr (title crmEvent))),
           (''contentTypeAlias'', JStr ''decEvent'')]
          @ eventFields crmEvent organiserSocialNetworks
          @ [(''pageBlocks'', pageBlocks)],
          n2))"

definition mapCrmEventToUmbraco ::
  "ArabicText \<Rightarrow> random \<Rightarrow> nat \<Rightarrow> CrmEvent \<Rightarrow> string option \<Rightarrow> json \<times> nat" where
  "mapCrmEventToUmbraco ar rnd n0 crmEvent parentId =
     (let (props, n2) = baseData ar rnd n0 crmEvent
      in (if truthyStr parentId
          then JObj (props @ [(''parentId'', JStr (the parentId))])
          else JObj props,
          n2))"

text \<open>
  The copy of the module in \<open>part_000\<close> builds a shorter \<open>baseData\<close>: the link to the
  organiser's website is always there (its \<open>name\<close> and \<open>url\<close> are \<open>null\<close> when the CRM
  has none) and there are no page blocks.  It ends with the same test of \<open>parentId\<close>.
\<close>

definition baseData_part_000 :: "random \<Rightarrow> nat \<Rightarrow> CrmEvent \<Rightarrow> (string \<times> json) list \<times> nat" where
  "baseData_part_000 rnd n0 crmEvent =
     (let (organiserSocialNetworks, n1) =
            buildSocialNetworksBlockList rnd n0 (socialMedia crmEvent);
          website = (case websiteURL crmEvent of None \<Rightarrow> JNull | Some u \<Rightarrow> JStr u)
      in ([(''name'', localized (JStr (title crmEvent))),
           (''contentTypeAlias'', JStr ''decEvent''),
           (''title'', localized (JStr (title crmEvent))),
           (''description'', localized (JStr (strOr (pageContent crmEvent) []))),
           (''metadataTitle'', localized (JStr (title crmEvent))),
           (''metadataDescription'', localized (JStr (strOr (pageContent crmEvent) []))),
           (''metadataKeywords'', localized (JStr [])),
           (''date'', invariant (JStr (startDate crmEvent))),
           (''category'',
            invariant (if eventType crmEvent \<noteq> [] then JArr [JStr (eventType crmEvent)] else JArr [])),
           (''endDate'', invariant (JStr (endDate crmEvent))),
           (''organiserName'', invariant (JStr (strOr (eventOrganiser crmEvent) []))),
           (''organiserWebsite'',
            invariant (JArr [JObj [(''icon'', JStr ''icon-link''), (''name'', website),
                                   (''nodeName'', JNull), (''published'', JBool True),
                                   (''queryString'', JNull), (''target'', JNull),
                                   (''trashed'', JBool False), (''udi'', JNull),
                                   (''url'', website)]])),
           (''organiserSocialNetworks'', invariant organiserSocialNetworks),
           (''eventId'', invariant (JStr (numberToString (eventId crmEvent)))),
           (''lastUpdatedDate'', invariant (JStr ([dquote] @ lastUpdatedDate crmEvent @ [dquote]))),
           (''location'',
            invariant (if truthyStr (location crmEvent) then JStr (the (location crmEvent)) else JNull)),
           (''eventVenue'', invariant (JArr (map JStr (eventVenues crmEvent)))),
           (''newEventVenue'', invariant (JArr [])),
           (''audience'',
            invariant (if truthyStr (eventAudiences crmEvent)
                       then JArr [JStr (the (eventAudiences crmEvent))] else JArr [])),
           (''industry'', invariant (JArr (map JStr (eventSectors crmEvent))))],
          n1))"

definition mapCrmEventToUmbraco_part_000 ::
  "random \<Rightarrow> nat \<Rightarrow> CrmEvent \<Rightarrow> string option \<Rightarrow> json \<times> nat" where
  "mapCrmEventToUmbraco_part_000 rnd n0 crmEvent parentId =
     (let (props, n1) = baseData_part_000 rnd n0 crmEvent
      in (if truthyStr parentId
          then JObj (props @ [(''parentId'', JStr (the parentId))])
          else JObj props,
          n1))"

section \<open>The store\<close>

text \<open>
  The update path clones an existing document and assigns to properties of the clone, so
  it is modelled over a store of objects and arrays.  A value is a primitive or a
  reference into the store; a cell is an object (its properties in insertion order) or
  an array (its elements, and the named properties an assignment may add to it).  The
  store is a list of cells, a reference is an index into it, and allocation appends.
\<close>

datatype val = VUndefined | VNull | VBool bool | VNum int | VStr string | VRef nat

datatype cell = ObjCell "(string \<times> val) list" | ArrCell "val list" "(string \<times> val) list"

type_synonym heap = "cell list"

datatype error = TypeError | SyntaxError

text \<open>
  Evaluating an object or array literal, and \<open>JSON.parse\<close> of a JSON text: the parts
  are allocated first, then the cell that holds them.
\<close>

fun alloc :: "json \<Rightarrow> heap \<Rightarrow> val \<times> heap"
  and alloc_list :: "json list \<Rightarrow> heap \<Rightarrow> val list \<times> heap"
  and alloc_fields :: "(string \<times> json) list \<Rightarrow> heap \<Rightarrow> (string \<times> val) list \<times> heap" where
  "alloc JNull h = (VNull, h)"
| "alloc (JBool b) h = (VBool b, h)"
| "alloc (JNum i) h = (VNum i, h)"
| "alloc (JStr s) h = (VStr s, h)"
| "alloc (JArr xs) h =
     (case alloc_list xs h of (vs, h1) \<Rightarrow> (VRef (length h1), h1 @ [ArrCell vs []]))"
| "alloc (JObj fs) h =
     (case alloc_fields fs h of (vfs, h1) \<Rightarrow> (VRef (length h1), h1 @ [ObjCell vfs]))"
| "alloc_list [] h = ([], h)"
| "alloc_list (x # xs) h =
     (case alloc x h of (v, h1) \<Rightarrow>
      case alloc_list xs h1 of (vs, h2) \<Rightarrow> (v # vs, h2))"
| "alloc_fields [] h = ([], h)"
| "alloc_fields (kx # fs) h =
     (case alloc (snd kx) h of (v, h1) \<Rightarrow>
      case alloc_fields fs h1 of (vfs, h2) \<Rightarrow> ((fst kx, v) # vfs, h2))"

text \<open>
  \<open>JSON.stringify\<close>, up to the text it writes: the JSON value of a store value.  A
  property whose value is \<open>undefined\<close> is left out, an \<open>undefined\<close> element becomes
  \<open>null\<close>, the named properties of an array are ignored, and the top-level \<open>undefined\<close>
  gives \<open>undefined\<close> (\<open>None\<close>).  A structure that contains itself raises a
  \<open>TypeError\<close>: the fuel is the number of nested references followed, and a path of
  more references than the store has cells meets a cell twice.
\<close>

primrec stringify_fields ::
  "(val \<Rightarrow> error + json option) \<Rightarrow> (string \<times> val) list \<Rightarrow> error + (string \<times> json) list" where
  "stringify_fields f [] = Inr []"
| "stringify_fields f (kv # fs) =
     (case f (snd kv) of
        Inl e \<Rightarrow> Inl e
      | Inr r \<Rightarrow>
          (case stringify_fields f fs of
             Inl e \<Rightarrow> Inl e
           | Inr js \<Rightarrow> Inr (case r of None \<Rightarrow> js | Some j \<Rightarrow> (fst kv, j) # js)))"

primrec stringify_elements :: "(val \<Rightarrow> error + json option) \<Rightarrow> val list \<Rightarrow> error + json list" where
  "stringify_elements f [] = Inr []"
| "stringify_elements f (v # vs) =
     (case f v of
        Inl e \<Rightarrow> Inl e
      | Inr r \<Rightarrow>
          (case stringify_elements f vs of
             Inl e \<Rightarrow> Inl e
           | Inr js \<Rightarrow> Inr ((case r of None \<Rightarrow> JNull | Some j \<Rightarrow> j) # js)))"

primrec stringify :: "nat \<Rightarrow> heap \<Rightarrow> val \<Rightarrow> error + json option" where
  "stringify 0 h v =
     (case v of
        VUndefined \<Rightarrow> Inr None
      | VNull \<Rightarrow> Inr (Some JNull)
      | VBool b \<Rightarrow> Inr (Some (JBool b))
      | VNum i \<Rightarrow> Inr (Some (JNum i))
      | VStr s \<Rightarrow> Inr (Some (JStr s))
      | VRef a \<Rightarrow> Inl TypeError)"
| "stringify (Suc n) h v =
     (case v of
        VUndefined \<Rightarrow> Inr None
      | VNull \<Rightarrow> Inr (Some JNull)
      | VBool b \<Rightarrow> Inr (Some (JBool b))
      | VNum i \<Rightarrow> Inr (Some (JNum i))
      | VStr s \<Rightarrow> Inr (Some (JStr s))
      | VRef a \<Rightarrow>
          if a < length h
          then (case h ! a of
                  ObjCell fs \<Rightarrow>
                    (case stringify_fields (stringify n h) fs of
                       Inl e \<Rightarrow> Inl e | Inr js \<Rightarrow> Inr (Some (JObj js)))
                | ArrCell vs ps \<Rightarrow>
                    (case stringify_elements (stringify n h) vs of
                       Inl e \<Rightarrow> Inl e | Inr js \<Rightarrow> Inr (Some (JArr js))))
          else Inl TypeError)"

text \<open>
  \<open>JSON.parse(JSON.stringify(v))\<close>: \<open>JSON.parse(undefined)\<close> raises a \<open>SyntaxError\<close>.
\<close>

definition jsonClone :: "heap \<Rightarrow> val \<Rightarrow> error + val \<times> heap" where
  "jsonClone h v =
     (case stringify (length h) h v of
        Inl e \<Rightarrow> Inl e
      | Inr None \<Rightarrow> Inl SyntaxError
      | Inr (Some j) \<Rightarrow> Inr (alloc j h))"

text \<open>
  Reading a property by a name that is neither an index nor \<open>length\<close> (the module reads
  \<open>pageBlocks\<close>, \<open>en-US\<close>, \<open>ar\<close> and \<open>contentData\<close>), and reading the element 1.  Reading
  from \<open>null\<close> or \<open>undefined\<close> raises a \<open>TypeError\<close>; a missing property is
  \<open>undefined\<close>; a string of two characters or more has its second character at 1.  (A
  reference beyond the store does not occur; it reads as \<open>undefined\<close> and is not written.)
\<close>

definition readProp :: "heap \<Rightarrow> val \<Rightarrow> string \<Rightarrow> error + val" where
  "readProp h v k =
     (case v of
        VUndefined \<Rightarrow> Inl TypeError
      | VNull \<Rightarrow> Inl TypeError
      | VRef a \<Rightarrow>
          (if a < length h
           then (case h ! a of
                   ObjCell fs \<Rightarrow> Inr (case map_of fs k of Some x \<Rightarrow> x | None \<Rightarrow> VUndefined)
                 | ArrCell vs ps \<Rightarrow> Inr (case map_of ps k of Some x \<Rightarrow> x | None \<Rightarrow> VUndefined))
           else Inr VUndefined)
      | _ \<Rightarrow> Inr VUndefined)"

definition readIndex1 :: "heap \<Rightarrow> val \<Rightarrow> error + val" where
  "readIndex1 h v =
     (case v of
        VUndefined \<Rightarrow> Inl TypeError
      | VNull \<Rightarrow> Inl TypeError
      | VStr s \<Rightarrow> Inr (if 1 < length s then VStr [s ! 1] else VUndefined)
      | VRef a \<Rightarrow>
          (if a < length h
           then (case h ! a of
                   ObjCell fs \<Rightarrow> Inr (case map_of fs ''1'' of Some x \<Rightarrow> x | None \<Rightarrow> VUndefined)
                 | ArrCell vs ps \<Rightarrow> Inr (if 1 < length vs then vs ! 1 else VUndefined))
           else Inr VUndefined)
      | _ \<Rightarrow> Inr VUndefined)"

definition truthy :: "val \<Rightarrow> bool" where
  "truthy v =
     (case v of
        VUndefined \<Rightarrow> False
      | VNull \<Rightarrow> False
      | VBool b \<Rightarrow> b
      | VNum i \<Rightarrow> i \<noteq> 0
      | VStr s \<Rightarrow> s \<noteq> []
      | VRef a \<Rightarrow> True)"

text \<open>
  The assignment \<open>v.k = x\<close> and \<open>delete v.k\<close> for a named property.  The module is an
  ES module, hence strict code: assigning to a property of a primitive raises a
  \<open>TypeError\<close>.  An assignment to an existing property keeps its place, a new property
  goes last.
\<close>

definition writeProp :: "heap \<Rightarrow> val \<Rightarrow> string \<Rightarrow> val \<Rightarrow> error + heap" where
  "writeProp h v k x =
     (case v of
        VRef a \<Rightarrow>
          (if a < length h
           then (case h ! a of
                   ObjCell fs \<Rightarrow> Inr (h[a := ObjCell (AList.update k x fs)])
                 | ArrCell vs ps \<Rightarrow> Inr (h[a := ArrCell vs (AList.update k x ps)]))
           else Inr h)
      | _ \<Rightarrow> Inl TypeError)"

definition deleteProp :: "heap \<Rightarrow> val \<Rightarrow> string \<Rightarrow> error + heap" where
  "deleteProp h v k =
     (case v of
        VUndefined \<Rightarrow> Inl TypeError
      | VNull \<Rightarrow> Inl TypeError
      | VRef a \<Rightarrow>
          (if a < length h
           then (case h ! a of
                   ObjCell fs \<Rightarrow> Inr (h[a := ObjCell (AList.delete k fs)])
                 | ArrCell vs ps \<Rightarrow> Inr (h[a := ArrCell vs (AList.delete k ps)]))
           else Inr h)
      | _ \<Rightarrow> Inr h)"

section \<open>updatePageBlocks\<close>

text \<open>
  The body of the two \<open>if\<close> statements of \<open>updatePageBlocks\<close>.  The source writes it
  once per locale; the two copies differ in the \<open>target\<close> of the organiser's link only
  (\<open>null\<close> for English, \<open>_blank\<close> for Arabic).  The result is the error raised, if any,
  and the store.
\<close>

definition updateEventDescBlock ::
  "heap \<Rightarrow> val \<Rightarrow> CrmEvent \<Rightarrow> json \<Rightarrow> val \<Rightarrow> error option \<times> heap" where
  "updateEventDescBlock h eventDescBlock crmEvent target socialNetworks =
     (case alloc (richText (''<p>'' @ strOr (pageContent crmEvent) [] @ ''</p>'')) h of
        (description, h1) \<Rightarrow>
     case writeProp h1 eventDescBlock ''description'' description of
        Inl e \<Rightarrow> (Some e, h1)
      | Inr h2 \<Rightarrow>
     case writeProp h2 eventDescBlock ''organiserName''
            (VStr (strOr (eventOrganiser crmEvent) [])) of
        Inl e \<Rightarrow> (Some e, h2)
      | Inr h3 \<Rightarrow>
     case (if truthyStr (websiteURL crmEvent)
           then (case alloc (JArr [linkItem ''icon-link'' JNull JNull target JNull
                                     (the (websiteURL crmEvent))]) h3 of
                   (organiserWebsite, h4) \<Rightarrow>
                     (case writeProp h4 eventDescBlock ''organiserWebsite'' organiserWebsite of
                        Inl e \<Rightarrow> (Some e, h4)
                      | Inr h5 \<Rightarrow> (None, h5)))
           else (case deleteProp h3 eventDescBlock ''organiserWebsite'' of
                   Inl e \<Rightarrow> (Some e, h3)
                 | Inr h5 \<Rightarrow> (None, h5))) of
        (Some e, h5) \<Rightarrow> (Some e, h5)
      | (None, h5) \<Rightarrow>
     case writeProp h5 eventDescBlock ''socialNetworks'' socialNetworks of
        Inl e \<Rightarrow> (Some e, h5)
      | Inr h6 \<Rightarrow> (None, h6))"

text \<open>
  One locale: \<open>if (blocks.contentData && blocks.contentData[1]) { ... }\<close>.
\<close>

definition updateLocale ::
  "heap \<Rightarrow> val \<Rightarrow> CrmEvent \<Rightarrow> json \<Rightarrow> val \<Rightarrow> error option \<times> heap" where
  "updateLocale h updatedBlocks crmEvent target socialNetworks =
     (case readProp h updatedBlocks ''contentData'' of
        Inl e \<Rightarrow> (Some e, h)
      | Inr contentData \<Rightarrow>
          if \<not> truthy contentData then (None, h)
          else (case readIndex1 h contentData of
                  Inl e \<Rightarrow> (Some e, h)
                | Inr eventDescBlock \<Rightarrow>
                    if \<not> truthy eventDescBlock then (None, h)
                    else updateEventDescBlock h eventDescBlock crmEvent target socialNetworks))"

text \<open>
  The result is the value returned or the error raised, the store, and the counter of
  draws.
\<close>

definition updatePageBlocks ::
  "random \<Rightarrow> nat \<Rightarrow> heap \<Rightarrow> val \<Rightarrow> CrmEvent \<Rightarrow> (error + val) \<times> heap \<times> nat" where
  "updatePageBlocks rnd n h existingPageBlocks crmEvent =
     (case buildSocialNetworksBlockList rnd n (socialMedia crmEvent) of (sn, n1) \<Rightarrow>
      case alloc sn h of (socialNetworks, h1) \<Rightarrow>
      case readProp h1 existingPageBlocks ''en-US'' of
        Inl e \<Rightarrow> (Inl e, h1, n1)
      | Inr en \<Rightarrow>
      case jsonClone h1 en of
        Inl e \<Rightarrow> (Inl e, h1, n1)
      | Inr (updatedEnglishBlocks, h2) \<Rightarrow>
      case readProp h2 existingPageBlocks ''ar'' of
        Inl e \<Rightarrow> (Inl e, h2, n1)
      | Inr arb \<Rightarrow>
      case jsonClone h2 arb of
        Inl e \<Rightarrow> (Inl e, h2, n1)
      | Inr (updatedArabicBlocks, h3) \<Rightarrow>
      case updateLocale h3 updatedEnglishBlocks crmEvent JNull socialNetworks of
        (Some e, h4) \<Rightarrow> (Inl e, h4, n1)
      | (None, h4) \<Rightarrow>
      case updateLocale h4 updatedArabicBlocks crmEvent (JStr ''_blank'') socialNetworks of
        (Some e, h5) \<Rightarrow> (Inl e, h5, n1)
      | (None, h5) \<Rightarrow>
          (Inr (VRef (length h5)),
           h5 @ [ObjCell [(''en-US'', updatedEnglishBlocks), (''ar'', updatedArabicBlocks)]],
           n1))"

section \<open>mapCrmEventForUpdate\<close>

text \<open>
  The properties of the returned literal are evaluated in order: \<open>name\<close>, the properties
  shared with the create payload, then \<open>pageBlocks\<close>, which merges into the existing page
  blocks when \<open>existingUmbracoEvent.pageBlocks\<close> is truthy and builds new ones otherwise.
\<close>

definition mapCrmEventForUpdate ::
  "ArabicText \<Rightarrow> random \<Rightarrow> nat \<Rightarrow> heap \<Rightarrow> CrmEvent \<Rightarrow> val \<Rightarrow> (error + val) \<times> heap \<times> nat" where
  "mapCrmEventForUpdate ar rnd n h crmEvent existingUmbracoEvent =
     (case buildSocialNetworksBlockList rnd n (socialMedia crmEvent) of
        (organiserSocialNetworks, n1) \<Rightarrow>
      case alloc_fields ((''name'', localized (JStr (title crmEvent)))
                         # eventFields crmEvent organiserSocialNetworks) h of
        (props, h1) \<Rightarrow>
      case readProp h1 existingUmbracoEvent ''pageBlocks'' of
        Inl e \<Rightarrow> (Inl e, h1, n1)
      | Inr existingPageBlocks \<Rightarrow>
          if truthy existingPageBlocks
          then (case updatePageBlocks rnd n1 h1 existingPageBlocks crmEvent of
                  (Inl e, h2, n2) \<Rightarrow> (Inl e, h2, n2)
                | (Inr pageBlocks, h2, n2) \<Rightarrow>
                    (Inr (VRef (length h2)),
                     h2 @ [ObjCell (props @ [(''pageBlocks'', pageBlocks)])], n2))
          else (case buildPageBlocks ar rnd n1 crmEvent of (pb, n2) \<Rightarrow>
                case alloc pb h1 of (pageBlocks, h2) \<Rightarrow>
                  (Inr (VRef (length h2)),
                   h2 @ [ObjCell (props @ [(''pageBlocks'', pageBlocks)])], n2)))"

section \<open>Fresh values\<close>

text \<open>
  For the frame statements: a value is fresh above \<open>n\<close> when it is a primitive or a
  reference to a cell at \<open>n\<close> or later, and a store is closed above \<open>n\<close> when the cells
  from \<open>n\<close> on hold fresh values only (nothing allocated later shares a cell with the
  first \<open>n\<close> cells).
\<close>

definition freshVal :: "nat \<Rightarrow> val \<Rightarrow> bool" where
  "freshVal n v = (case v of VRef a \<Rightarrow> n \<le> a | _ \<Rightarrow> True)"

definition cellVals :: "cell \<Rightarrow> val list" where
  "cellVals c = (case c of ObjCell fs \<Rightarrow> map snd fs | ArrCell vs ps \<Rightarrow> vs @ map snd ps)"

definition freshCell :: "nat \<Rightarrow> cell \<Rightarrow> bool" where
  "freshCell n c = list_all (freshVal n) (cellVals c)"



text \<open>The store, and the value returned, of an outcome.\<close>

definition storeOf :: "(error + val) \<times> heap \<times> nat \<Rightarrow> heap" where
  "storeOf r = fst (snd r)"

definition returned :: "(error + val) \<times> heap \<times> nat \<Rightarrow> val option" where
  "returned r = (case fst r of Inl e \<Rightarrow> None | Inr v \<Rightarrow> Some v)"

text \<open>
  A value lies in a store when it is a primitive or a reference to one of its cells; a
  store is well formed when its cells hold values that lie in it.
\<close>

definition inStore :: "heap \<Rightarrow> val \<Rightarrow> bool" where
  "inStore h v = (case v of VRef a \<Rightarrow> a < length h | _ \<Rightarrow> True)"


section \<open>Reading a block list\<close>

text \<open>
  Observers for the statements about block lists: the property of an object, the
  elements of an array, and the two identifier sequences of a block list.
\<close>

definition getProp :: "string \<Rightarrow> json \<Rightarrow> json option" where
  "getProp k v = (case v of JObj fs \<Rightarrow> map_of fs k | _ \<Rightarrow> None)"

definition elements :: "json option \<Rightarrow> json list" where
  "elements v = (case v of Some (JArr xs) \<Rightarrow> xs | _ \<Rightarrow> [])"

definition layoutEntries :: "json \<Rightarrow> json list" where
  "layoutEntries bl =
     elements (case getProp ''layout'' bl of Some l \<Rightarrow> getProp ''Umbraco.BlockList'' l | None \<Rightarrow> None)"

definition contentEntries :: "json \<Rightarrow> json list" where
  "contentEntries bl = elements (getProp ''contentData'' bl)"

definition layoutUdis :: "json \<Rightarrow> json option list" where
  "layoutUdis bl = map (getProp ''contentUdi'') (layoutEntries bl)"

definition contentUdis :: "json \<Rightarrow> json option list" where
  "contentUdis bl = map (getProp ''udi'') (contentEntries bl)"

text \<open>
  For the statements about the social-networks block list: the networks whose URL is not
  blank, in the order of the source, and the identifiers drawn for \<open>k\<close> of them from
  the \<open>n\<close>-th draw on (each identifier takes 31 draws).
\<close>

definition populated :: "SocialMedia \<Rightarrow> (string \<times> string \<times> string) list" where
  "populated sm = filter (\<lambda>(key, name, url). trim url \<noteq> []) (socialNetworks_of sm)"

definition drawnUdis :: "random \<Rightarrow> nat \<Rightarrow> nat \<Rightarrow> string list" where
  "drawnUdis rnd n k =
     map (\<lambda>i. elementUdi (removeHyphens (fst (generateGuid rnd (n + 31 * i))))) [0..<k]"

text \<open>
  For the statements about page blocks: the block list of one locale, and referential
  closure of a block list: every identifier of the layout is the identifier of exactly
  one content entry, and every identifier of a content entry occurs exactly once in the
  layout.
\<close>

definition localeBlocks :: "string \<Rightarrow> json \<Rightarrow> json" where
  "localeBlocks locale pageBlocks = (case getProp locale pageBlocks of Some b \<Rightarrow> b | None \<Rightarrow> JNull)"

definition referentiallyClosed :: "json \<Rightarrow> bool" where
  "referentiallyClosed bl =
     (list_all (\<lambda>u. count_list (contentUdis bl) u = 1) (layoutUdis bl)
      \<and> list_all (\<lambda>u. count_list (layoutUdis bl) u = 1) (contentUdis bl))"

text \<open>
  The CMS event that results when the CMS stores a payload of the mapper as it is: its
  identifier and its freshness marker are the strings under \<open>eventId\<close> and
  \<open>lastUpdatedDate\<close> of the payload.
\<close>

definition payloadString :: "string \<Rightarrow> json \<Rightarrow> string" where
  "payloadString k payload =
     (case getProp k payload of
        Some field \<Rightarrow> (case getProp ''$invariant'' field of Some (JStr s) \<Rightarrow> s | _ \<Rightarrow> [])
      | None \<Rightarrow> [])"

definition storedEvent :: "string \<Rightarrow> json \<Rightarrow> UmbracoEvent" where
  "storedEvent docId payload =
     \<lparr>id_u = docId, eventId_u = payloadString ''eventId'' payload,
      lastUpdatedDate_u = payloadString ''lastUpdatedDate'' payload,
      name_u = docId\<rparr>"

section \<open>Sample inputs\<close>

definition sampleSocialMedia :: SocialMedia where
  "sampleSocialMedia =
     \<lparr>facebook = ''https://facebook.com/dec'', linkedIn = [], instagram = ''   '',
      youtube = [], tiktok = ''https://tiktok.com/@dec''\<rparr>"

definition sampleCrmEvent :: CrmEvent where
  "sampleCrmEvent =
     \<lparr>title = ''Expo'', featuredImage = [], pageContent = ''Welcome'', imagesCarousel = [],
      startDate = ''2024-03-01'', endDate = ''2024-03-02'', location = Some ''Dubai'',
      eventAudiences = Some ''Trade'', eventSectors = [''Energy''], eventId = 7,
      eventType = ''Exhibition'', eventVenues = [''A'', ''B''], eventOrganiser = ''DEC'',
      websiteURL = Some ''https://example.org'', dWTCEvent = False, eventLogo = None,
      socialMedia = sampleSocialMedia, lastUpdatedDate = ''2024-01-01'',
      WebsiteStatus = ''Online''\<rparr>"

definition sampleUmbracoEvent :: UmbracoEvent where
  "sampleUmbracoEvent =
     \<lparr>id_u = ''doc-1'', eventId_u = ''7'', lastUpdatedDate_u = ''2023-12-31'', name_u = ''Expo''\<rparr>"

definition sampleArabicText :: ArabicText where
  "sampleArabicText =
     \<lparr>gettingHereTitle = ''t1'', gettingHereSubtitleMarkup = ''<p>s1</p>'',
      gettingHereDescriptionMarkup = ''<p>d1</p>'', gettingHereLinkName = ''l1'',
      destinationListTitle = ''t2'', destinationListSubtitle = ''s2'',
      destinationCardTitle = ''t3'', destinationCardSubtitleMarkup = ''<p>s3</p>'',
      destinationCardDescriptionMarkup = ''<p>d3</p>'', destinationCardLinkName = ''l3''\<rparr>"

text \<open>Two random sources: every draw 0, and the draws 0, 1, 2, ... modulo 16.\<close>

definition zeroRandom :: random where
  "zeroRandom = (\<lambda>i. 0)"

definition countingRandom :: random where
  "countingRandom = (\<lambda>i. of_nat i)"

text \<open>
  An existing CMS event: its page blocks hold, per locale, a hero-image block and an
  event-description block with identifier \<open>bb\<close> (English) or \<open>dd\<close> (Arabic).  A second
  one has no Arabic variant: its \<open>ar\<close> is \<open>null\<close>.
\<close>

definition sampleLocaleBlocks :: "string \<Rightarrow> string \<Rightarrow> json" where
  "sampleLocaleBlocks heroUdi descUdi =
     blockList [heroUdi, descUdi]
       [heroImageBlock heroUdi,
        JObj [(''contentTypeKey'', JStr ''163c1761-234c-41f4-92e5-9d3d26186b79''),
              (''udi'', JStr descUdi),
              (''organiserLogo'', JArr []),
              (''organiserName'', JStr ''Old organiser'')]]"

definition sampleExistingEvent :: json where
  "sampleExistingEvent =
     JObj [(''eventId'', invariant (JStr ''7'')),
           (''pageBlocks'',
            JObj [(''en-US'', sampleLocaleBlocks ''umb://element/aa'' ''umb://element/bb''),
                  (''ar'', sampleLocaleBlocks ''umb://element/cc'' ''umb://element/dd'')])]"

definition sampleEventWithoutArabic :: json where
  "sampleEventWithoutArabic =
     JObj [(''eventId'', invariant (JStr ''7'')),
           (''pageBlocks'',
            JObj [(''en-US'', sampleLocaleBlocks ''umb://element/aa'' ''umb://element/bb''),
                  (''ar'', JNull)])]"

definition sampleStore :: heap where
  "sampleStore = snd (alloc sampleExistingEvent [])"


definition storeWithoutArabic :: heap where
  "storeWithoutArabic = snd (alloc sampleEventWithoutArabic [])"

definition storedEventWithoutArabic :: val where
  "storedEventWithoutArabic = fst (alloc sampleEventWithoutArabic [])"

text \<open>A CMS event whose page blocks have the English locale only.\<close>

definition sampleEventEnglishOnly :: json where
  "sampleEventEnglishOnly =
     JObj [(''eventId'', invariant (JStr ''7'')),
           (''pageBlocks'',
            JObj [(''en-US'', sampleLocaleBlocks ''umb://element/aa'' ''umb://element/bb'')])]"

definition storeEnglishOnly :: heap where
  "storeEnglishOnly = snd (alloc sampleEventEnglishOnly [])"

definition storedEventEnglishOnly :: val where
  "storedEventEnglishOnly = fst (alloc sampleEventEnglishOnly [])"



section \<open>Properties of the reconciler\<close>

lemma umbracoMap_foldl:
  "foldl (\<lambda>m event. m(eventId_u event \<mapsto> event)) m0 us k =
     (case List.find (\<lambda>u. eventId_u u = k) (rev us) of None \<Rightarrow> m0 k | Some u \<Rightarrow> Some u)"
  by (induction us rule: rev_induct) auto

lemma umbracoMap_of_find:
  "umbracoMap_of us k = List.find (\<lambda>u. eventId_u u = k) (rev us)"
  unfolding umbracoMap_of_def umbracoMap_foldl by (simp split: option.splits)

lemma umbracoMap_of_None:
  "umbracoMap_of us k = None \<longleftrightarrow> k \<notin> eventId_u ` set us"
  unfolding umbracoMap_of_find by (auto simp: find_None_iff)

lemma umbracoMap_of_Some:
  "umbracoMap_of us k = Some u \<Longrightarrow> u \<in> set us \<and> eventId_u u = k"
proof -
  assume "umbracoMap_of us k = Some u"
  then have f: "List.find (\<lambda>u. eventId_u u = k) (rev us) = Some u"
    by (simp add: umbracoMap_of_find)
  then obtain i where "i < length (rev us)" and "eventId_u (rev us ! i) = k" and "u = rev us ! i"
    unfolding find_Some_iff by blast
  then have "u \<in> set (rev us)" and "eventId_u u = k"
    using nth_mem by blast+
  then show ?thesis by simp
qed

lemma compareEvents_foldl:
  "foldl (compareEvents_step m) r crm =
     \<lparr>toUpdate = toUpdate r @ List.map_filter (updateOf m) crm,
      toCreate = toCreate r @ filter (\<lambda>e. m (numberToString (eventId e)) = None) crm\<rparr>"
proof (induction crm arbitrary: r)
  case Nil
  show ?case by simp
next
  case (Cons e crm)
  have step: "compareEvents_step m r e =
      \<lparr>toUpdate = toUpdate r @ (case updateOf m e of None \<Rightarrow> [] | Some p \<Rightarrow> [p]),
       toCreate = toCreate r @ (if m (numberToString (eventId e)) = None then [e] else [])\<rparr>"
    by (simp add: compareEvents_step_def updateOf_def Let_def split: option.splits)
  show ?case
    unfolding foldl_Cons Cons.IH step
    by (simp split: option.splits)
qed

lemma compareEvents_eq:
  "compareEvents crm ums =
     \<lparr>toUpdate = List.map_filter (updateOf (umbracoMap_of ums)) crm,
      toCreate = filter (\<lambda>e. umbracoMap_of ums (numberToString (eventId e)) = None) crm\<rparr>"
  unfolding compareEvents_def compareEvents_foldl by simp

lemma set_butlast_tl: "set (butlast (tl s)) \<subseteq> set s"
  by (cases s) (auto dest: in_set_butlastD)

lemma normalizeDateString_single_line:
  "\<not> list_ex lineTerminator s \<Longrightarrow> normalizeDateString s = stripWrappingQuotes_spec s"
proof -
  assume a: "\<not> list_ex lineTerminator s"
  with set_butlast_tl [of s] have "\<not> list_ex lineTerminator (butlast (tl s))"
    by (auto simp: list_ex_iff)
  then show ?thesis
    by (simp add: normalizeDateString_def matchQuoted_def stripWrappingQuotes_spec_def)
qed

lemma map_filter_cong_set:
  "(\<And>x. x \<in> set xs \<Longrightarrow> f x = g x) \<Longrightarrow> List.map_filter f xs = List.map_filter g xs"
  by (induction xs) (auto split: option.splits)

lemma bitLength_le: "v < 2 ^ k \<Longrightarrow> bitLength v \<le> k"
proof (induction k arbitrary: v)
  case 0
  then show ?case by (simp add: bitLength.simps)
next
  case (Suc k)
  from Suc.prems have "v div 2 < 2 ^ k" by simp
  then have "bitLength (v div 2) \<le> k" by (rule Suc.IH)
  then show ?case by (subst bitLength.simps) simp
qed

lemma numberValueIs_safe:
  assumes "v < 2 ^ 53"
  shows "numberValueIs v c \<longleftrightarrow> c = v"
proof -
  have "ulpExponent v = 0"
    using bitLength_le [OF assms] by (simp add: ulpExponent_def)
  then show ?thesis
    by (auto simp: numberValueIs_def Let_def)
qed

lemma shortestDigits_safe:
  assumes "v < 2 ^ 53"
  shows "shortestDigits v j = v"
proof (induction j)
  case 0
  show ?case by simp
next
  case (Suc j)
  have "v mod 10 ^ Suc j < 10 ^ Suc j" by simp
  then have "v < v div 10 ^ Suc j * 10 ^ Suc j + 10 ^ Suc j"
    using div_mult_mod_eq [of v "10 ^ Suc j"] by linarith
  then have hi: "v div 10 ^ Suc j * 10 ^ Suc j + 10 ^ Suc j \<noteq> v" by simp
  show ?case
    unfolding shortestDigits.simps Let_def numberValueIs_safe [OF assms]
    using hi Suc.IH by simp
qed

lemma length_natToString: "v < 10 ^ Suc k \<Longrightarrow> length (natToString v) \<le> Suc k"
proof (induction k arbitrary: v)
  case 0
  then show ?case by (simp add: natToString.simps)
next
  case (Suc k)
  from Suc.prems have "v div 10 < 10 ^ Suc k" by simp
  then have "length (natToString (v div 10)) \<le> Suc k" by (rule Suc.IH)
  then show ?case by (subst natToString.simps) simp
qed

lemma positiveToString_safe:
  assumes "v < 2 ^ 53"
  shows "positiveToString v = natToString v"
proof -
  have "v < 10 ^ Suc 15" using assms by simp
  then have "length (natToString v) \<le> Suc 15" by (rule length_natToString)
  then show ?thesis
    by (simp add: positiveToString_def Let_def shortestDigits_safe [OF assms])
qed

lemma numberToString_safe:
  "\<bar>i\<bar> < 2 ^ 53 \<Longrightarrow>
     numberToString i = (if i < 0 then CHR ''-'' # natToString (nat (- i)) else natToString (nat i))"
  by (simp add: numberToString_def positiveToString_safe nat_less_iff)

lemma numberToString_7: "numberToString 7 = ''7''"
  by (simp add: numberToString_safe natToString.simps digitChar_def)

lemma numberToString_8: "numberToString 8 = ''8''"
  by (simp add: numberToString_safe natToString.simps digitChar_def)

lemma shortestDigits_numeral:
  "shortestDigits v (numeral k) =
     (let lo = (v div 10 ^ numeral k) * 10 ^ numeral k;
          hi = lo + 10 ^ numeral k
      in if numberValueIs v lo \<and> numberValueIs v hi
         then (if v - lo < hi - v \<or> (v - lo = hi - v \<and> even (v div 10 ^ numeral k)) then lo else hi)
         else if numberValueIs v lo then lo
         else if numberValueIs v hi then hi
         else shortestDigits v (pred_numeral k))"
  by (simp add: numeral_eq_Suc Let_def)

text \<open>
  Above \<open>2 ^ 53\<close> the digits printed are not those of the integer: \<open>2 ^ 60\<close>.
\<close>

lemma numberToString_2_60: "numberToString 1152921504606846976 = ''1152921504606847000''"
proof -
  have b: "bitLength 1152921504606846976 = 61"
    by (simp add: bitLength.simps)
  have "length (natToString 1152921504606846976) = 19"
    by (simp add: natToString.simps)
  moreover have "shortestDigits 1152921504606846976 18 = 1152921504606847000"
    by (simp add: shortestDigits_numeral numberValueIs_def ulpExponent_def b Let_def)
  moreover have "natToString 1152921504606847000 = ''1152921504606847000''"
    by (simp add: natToString.simps digitChar_def)
  ultimately show ?thesis
    by (simp add: numberToString_def positiveToString_def Let_def)
qed

lemma normalizeDateString_spec_iff:
  "normalizeDateString s = stripWrappingQuotes_spec s \<longleftrightarrow> \<not> quotedAcrossLines s"
proof (cases "quotedAcrossLines s")
  case True
  then have "normalizeDateString s = s"
    by (simp add: quotedAcrossLines_def normalizeDateString_def matchQuoted_def)
  moreover have "length (stripWrappingQuotes_spec s) < length s"
    using True by (auto simp: quotedAcrossLines_def stripWrappingQuotes_spec_def)
  ultimately show ?thesis using True by auto
next
  case False
  then show ?thesis
    by (auto simp: quotedAcrossLines_def normalizeDateString_def matchQuoted_def
          stripWrappingQuotes_spec_def)
qed

text \<open>
  What \<open>compareEvents\<close> returns, for every input.  The lookup holds, for each CMS
  \<open>eventId\<close>, the last CMS event with that identifier.  \<open>toCreate\<close> is the CRM events
  whose identifier, as a string, is the identifier of no CMS event.  \<open>toUpdate\<close> is the
  CRM events with a match whose marker differs from the marker of the match after
  \<open>normalizeDateString\<close>, each paired with its match.  Both are in the order of the CRM
  input.
\<close>

lemma compareEvents_classification:
  "toCreate (compareEvents crm ums) =
     filter (\<lambda>e. numberToString (eventId e) \<notin> eventId_u ` set ums) crm"
  "toUpdate (compareEvents crm ums) =
     List.map_filter
       (\<lambda>e. case List.find (\<lambda>u. eventId_u u = numberToString (eventId e)) (rev ums) of
              None \<Rightarrow> None
            | Some u \<Rightarrow>
                if normalizeDateString (lastUpdatedDate e) \<noteq>
                   normalizeDateString (lastUpdatedDate_u u)
                then Some (u, e) else None) crm"
proof -
  show "toCreate (compareEvents crm ums) =
     filter (\<lambda>e. numberToString (eventId e) \<notin> eventId_u ` set ums) crm"
    by (simp add: compareEvents_eq umbracoMap_of_None)
  have "updateOf (umbracoMap_of ums) =
       (\<lambda>e. case List.find (\<lambda>u. eventId_u u = numberToString (eventId e)) (rev ums) of
              None \<Rightarrow> None
            | Some u \<Rightarrow>
                if normalizeDateString (lastUpdatedDate e) \<noteq>
                   normalizeDateString (lastUpdatedDate_u u)
                then Some (u, e) else None)"
    by (rule ext) (simp add: updateOf_def umbracoMap_of_find)
  then show "toUpdate (compareEvents crm ums) =
     List.map_filter
       (\<lambda>e. case List.find (\<lambda>u. eventId_u u = numberToString (eventId e)) (rev ums) of
              None \<Rightarrow> None
            | Some u \<Rightarrow>
                if normalizeDateString (lastUpdatedDate e) \<noteq>
                   normalizeDateString (lastUpdatedDate_u u)
                then Some (u, e) else None) crm"
    by (simp add: compareEvents_eq)
qed

text \<open>
  In the specification's wording, a single layer of wrapping quotes stripped from each
  marker: \<open>toUpdate\<close> is what the specification says whenever no marker is wrapped in
  quotes around a line terminator.  (\<open>toCreate\<close> does not depend on the markers.)
\<close>

lemma compareEvents_classification_spec:
  assumes crm: "\<forall>e\<in>set crm. \<not> quotedAcrossLines (lastUpdatedDate e)"
      and ums: "\<forall>u\<in>set ums. \<not> quotedAcrossLines (lastUpdatedDate_u u)"
  shows "toUpdate (compareEvents crm ums) =
           List.map_filter
             (\<lambda>e. case List.find (\<lambda>u. eventId_u u = numberToString (eventId e)) (rev ums) of
                    None \<Rightarrow> None
                  | Some u \<Rightarrow>
                      if stripWrappingQuotes_spec (lastUpdatedDate e) \<noteq>
                         stripWrappingQuotes_spec (lastUpdatedDate_u u)
                      then Some (u, e) else None) crm"
proof -
  have "updateOf (umbracoMap_of ums) e =
          (case List.find (\<lambda>u. eventId_u u = numberToString (eventId e)) (rev ums) of
             None \<Rightarrow> None
           | Some u \<Rightarrow>
               if stripWrappingQuotes_spec (lastUpdatedDate e) \<noteq>
                  stripWrappingQuotes_spec (lastUpdatedDate_u u)
               then Some (u, e) else None)" if e: "e \<in> set crm" for e
  proof (cases "umbracoMap_of ums (numberToString (eventId e))")
    case None
    then show ?thesis by (simp add: updateOf_def umbracoMap_of_find)
  next
    case (Some u)
    then have "u \<in> set ums" by (simp add: umbracoMap_of_Some)
    then have "normalizeDateString (lastUpdatedDate_u u) = stripWrappingQuotes_spec (lastUpdatedDate_u u)"
      using ums by (simp add: normalizeDateString_spec_iff)
    moreover have "normalizeDateString (lastUpdatedDate e) = stripWrappingQuotes_spec (lastUpdatedDate e)"
      using crm e by (simp add: normalizeDateString_spec_iff)
    ultimately show ?thesis
      using Some by (simp add: updateOf_def umbracoMap_of_find [symmetric])
  qed
  then have "List.map_filter (updateOf (umbracoMap_of ums)) crm = List.map_filter
             (\<lambda>e. case List.find (\<lambda>u. eventId_u u = numberToString (eventId e)) (rev ums) of
                    None \<Rightarrow> None
                  | Some u \<Rightarrow>
                      if stripWrappingQuotes_spec (lastUpdatedDate e) \<noteq>
                         stripWrappingQuotes_spec (lastUpdatedDate_u u)
                      then Some (u, e) else None) crm"
    by (rule map_filter_cong_set)
  then show ?thesis
    by (simp add: compareEvents_eq)
qed

text \<open>
  Three CRM events against one CMS event with identifier 7 and marker 2023-12-31: the
  first has identifier 7 and another marker (updated), the second has identifier 8
  (created), the third has identifier 7 and the CMS marker in quotes (dropped).
\<close>

lemma compareEvents_classification_example:
  "compareEvents
      [sampleCrmEvent, sampleCrmEvent\<lparr>eventId := 8\<rparr>,
       sampleCrmEvent\<lparr>lastUpdatedDate := dquote # ''2023-12-31'' @ [dquote]\<rparr>]
      [sampleUmbracoEvent]
     = \<lparr>toUpdate = [(sampleUmbracoEvent, sampleCrmEvent)],
        toCreate = [sampleCrmEvent\<lparr>eventId := 8\<rparr>]\<rparr>"
  by (simp add: compareEvents_def compareEvents_step_def umbracoMap_of_def
        sampleCrmEvent_def sampleUmbracoEvent_def lineTerminator_def dquote_def
        numberToString_7 numberToString_8 normalizeDateString_def matchQuoted_def)

text \<open>
  A CRM event with identifier \<open>2 ^ 60\<close> matches the CMS event whose \<open>eventId\<close> is the
  string that \<open>toString\<close> prints for it.
\<close>

lemma compareEvents_large_identifier:
  "compareEvents [sampleCrmEvent\<lparr>eventId := 1152921504606846976\<rparr>]
      [sampleUmbracoEvent\<lparr>eventId_u := ''1152921504606847000'',
                           lastUpdatedDate_u := ''2024-01-01''\<rparr>]
     = \<lparr>toUpdate = [], toCreate = []\<rparr>"
  by (simp add: compareEvents_def compareEvents_step_def umbracoMap_of_def
        sampleCrmEvent_def sampleUmbracoEvent_def numberToString_2_60)

text \<open>
  C1.  The classification fails on the code where a marker is wrapped in quotes around
  a line terminator.  \<open>normalizeDateString\<close> is to remove surrounding quotes if present,
  but \<open>.\<close> in its pattern does not match a line terminator: the pattern does not match
  such a marker and its quotes stay.  The CRM event has identifier 7 and the marker
  \<open>"2024-01-01\n"\<close>, quotes included; the CMS event has \<open>eventId\<close> \<open>7\<close> and the marker
  \<open>2024-01-01\n\<close>.  The identifiers match and the markers are equal once a single layer
  of wrapping quotes is stripped from each, so the event belongs in neither list; the
  code compares \<open>"2024-01-01\n"\<close> with \<open>2024-01-01\n\<close> and puts the pair in \<open>toUpdate\<close>.
\<close>

theorem C1_quoted_marker_with_line_feed:
  "eventId_u sampleUmbracoEvent = numberToString (eventId sampleCrmEvent)
   \<and> stripWrappingQuotes_spec (dquote # ''2024-01-01'' @ [CHR 0x0A, dquote])
       = stripWrappingQuotes_spec (''2024-01-01'' @ [CHR 0x0A])
   \<and> normalizeDateString (dquote # ''2024-01-01'' @ [CHR 0x0A, dquote])
       = dquote # ''2024-01-01'' @ [CHR 0x0A, dquote]
   \<and> normalizeDateString (''2024-01-01'' @ [CHR 0x0A]) = ''2024-01-01'' @ [CHR 0x0A]
   \<and> compareEvents
        [sampleCrmEvent\<lparr>lastUpdatedDate := dquote # ''2024-01-01'' @ [CHR 0x0A, dquote]\<rparr>]
        [sampleUmbracoEvent\<lparr>lastUpdatedDate_u := ''2024-01-01'' @ [CHR 0x0A]\<rparr>]
       = \<lparr>toUpdate =
            [(sampleUmbracoEvent\<lparr>lastUpdatedDate_u := ''2024-01-01'' @ [CHR 0x0A]\<rparr>,
              sampleCrmEvent\<lparr>lastUpdatedDate := dquote # ''2024-01-01'' @ [CHR 0x0A, dquote]\<rparr>)],
          toCreate = []\<rparr>"
  by (simp add: compareEvents_def compareEvents_step_def umbracoMap_of_def
        sampleCrmEvent_def sampleUmbracoEvent_def lineTerminator_def dquote_def
        numberToString_7 stripWrappingQuotes_spec_def normalizeDateString_def matchQuoted_def)

text \<open>
  C3.  Partition totality.  The positions of the CRM input fall into three classes:
  created, updated, already synchronised.  The classes are pairwise disjoint and cover
  every position; \<open>toCreate\<close> is the CRM input at the created positions and
  \<open>toUpdate\<close> pairs the CRM input at the updated positions, each in input order; so
  every occurrence of a CRM event has exactly one of the three outcomes.
\<close>

theorem C3_partition_totality:
  "toCreate (compareEvents crm ums) = nths crm (createdAt crm ums)
   \<and> map snd (toUpdate (compareEvents crm ums)) = nths crm (updatedAt crm ums)
   \<and> createdAt crm ums \<union> updatedAt crm ums \<union> syncedAt crm ums = {..<length crm}
   \<and> createdAt crm ums \<inter> updatedAt crm ums = {}
   \<and> createdAt crm ums \<inter> syncedAt crm ums = {}
   \<and> updatedAt crm ums \<inter> syncedAt crm ums = {}
   \<and> length (toCreate (compareEvents crm ums)) + length (toUpdate (compareEvents crm ums))
       + card (syncedAt crm ums) = length crm"
proof -
  define m where "m = umbracoMap_of ums"
  define r where "r = compareEvents crm ums"
  define C where "C = createdAt crm ums"
  define U where "U = updatedAt crm ums"
  define D where "D = syncedAt crm ums"
  have mf: "map snd (List.map_filter (updateOf m) xs) = filter (\<lambda>e. updateOf m e \<noteq> None) xs" for xs
    by (induction xs) (auto simp: updateOf_def split: option.splits)
  have c: "toCreate r = nths crm C"
    unfolding r_def compareEvents_eq C_def createdAt_def by (simp add: filter_eq_nths)
  have "{i. i < length crm \<and> updateOf m (crm ! i) \<noteq> None} = U"
    unfolding U_def updatedAt_def updateOf_def m_def by (auto split: option.splits)
  then have u: "map snd (toUpdate r) = nths crm U"
    unfolding r_def compareEvents_eq m_def [symmetric] by (simp add: mf filter_eq_nths)
  have part: "C \<union> U \<union> D = {..<length crm}" "C \<inter> U = {}" "C \<inter> D = {}" "U \<inter> D = {}"
    unfolding C_def U_def D_def createdAt_def updatedAt_def syncedAt_def by auto
  have fin: "finite C" "finite U" "finite D"
    unfolding C_def U_def D_def createdAt_def updatedAt_def syncedAt_def by auto
  have "length (toCreate r) = card C" "length (toUpdate r) = card U"
    using c u
    by (auto simp: length_nths C_def U_def createdAt_def updatedAt_def
             dest: arg_cong [where f = length])
  moreover have "card (C \<union> U \<union> D) = card C + card U + card D"
  proof -
    have "(C \<union> U) \<inter> D = {}" using part by blast
    then have "card (C \<union> U \<union> D) = card (C \<union> U) + card D"
      using fin by (simp add: card_Un_disjoint)
    also have "card (C \<union> U) = card C + card U"
      using fin part by (simp add: card_Un_disjoint)
    finally show ?thesis .
  qed
  moreover have "card (C \<union> U \<union> D) = length crm" using part by simp
  ultimately show ?thesis
    using c u part unfolding r_def C_def U_def D_def by simp
qed

section \<open>Properties of the venue filter\<close>





section \<open>Properties of generateGuid\<close>

lemma unat_4word_less: "unat (v :: 4 word) < 16"
  using unsigned_less [of v] by simp

lemma word4_cases: "(v :: 4 word) \<in> {0,1,2,3,4,5,6,7,8,9,10,11,12,13,14,15}"
proof -
  have "unat v < 16" by (rule unat_4word_less)
  then have "unat v \<in> {0,1,2,3,4,5,6,7,8,9,10,11,12,13,14,15}" by (simp; arith)
  then show ?thesis
    by (auto simp: word_unat_eq_iff)
qed

lemma hexDigit_variant: "hexDigit ((r AND 3) OR 8) \<in> set ''89ab''"
  using word4_cases [of r] by (auto simp: hexDigit_def)

lemma hexDigit_lower [simp]: "lowerHexDigit (hexDigit v)"
  using word4_cases [of v] by (auto simp: hexDigit_def lowerHexDigit_def)

lemma hexDigit_not_hyphen [simp]: "hexDigit v \<noteq> CHR ''-''" "CHR ''-'' \<noteq> hexDigit v"
  using word4_cases [of v] by (auto simp: hexDigit_def)

lemma lowerHexDigit_4 [simp]: "lowerHexDigit (CHR ''4'')"
  by (simp add: lowerHexDigit_def)

lemma generateGuid_counter: "snd (generateGuid rnd n) = n + 31"
  by (simp add: generateGuid_def Let_def split_def)

text \<open>
  C8.  Identifier shape.  Whatever the random source draws, \<open>generateGuid\<close> returns 36
  characters with hyphens exactly where the template has them; the 32 others are
  lower-case hexadecimal digits, the 13th of them is 4 and the 17th is one of 8, 9, a,
  b.  The URI form, \<open>umb://element/\<close> followed by the identifier without its hyphens,
  holds no hyphen.  One identifier takes 31 draws.
\<close>

theorem C8_identifier_shape:
  "length (fst (generateGuid rnd n)) = 36
   \<and> map (\<lambda>c. c = CHR ''-'') (fst (generateGuid rnd n))
       = map (\<lambda>c. c = CHR ''-'') ''xxxxxxxx-xxxx-4xxx-yxxx-xxxxxxxxxxxx''
   \<and> length (removeHyphens (fst (generateGuid rnd n))) = 32
   \<and> list_all lowerHexDigit (removeHyphens (fst (generateGuid rnd n)))
   \<and> removeHyphens (fst (generateGuid rnd n)) ! 12 = CHR ''4''
   \<and> removeHyphens (fst (generateGuid rnd n)) ! 16 \<in> set ''89ab''
   \<and> CHR ''-'' \<notin> set (elementUdi (removeHyphens (fst (generateGuid rnd n))))
   \<and> snd (generateGuid rnd n) = n + 31"
  by (simp add: generateGuid_def Let_def toString16_def split_def removeHyphens_def elementUdi_def
        hexDigit_variant [simplified])

section \<open>Properties of buildSocialNetworksBlockList\<close>

lemma trim_Nil [simp]: "trim [] = []"
  by (simp add: trim_def)

lemma drawnUdis_Suc:
  "drawnUdis rnd n (Suc k) =
     elementUdi (removeHyphens (fst (generateGuid rnd n))) # drawnUdis rnd (n + 31) k"
proof -
  have "[0..<Suc k] = 0 # map Suc [0..<k]"
    by (simp add: upt_conv_Cons map_Suc_upt del: upt_Suc)
  then show ?thesis
    by (simp add: drawnUdis_def comp_def add.assoc del: upt_Suc)
qed

lemma drawnUdis_0 [simp]: "drawnUdis rnd n 0 = []"
  by (simp add: drawnUdis_def)

lemma length_drawnUdis [simp]: "length (drawnUdis rnd n k) = k"
  by (simp add: drawnUdis_def)

lemma drawnUdis_2:
  "drawnUdis rnd n (Suc (Suc 0)) =
     [elementUdi (removeHyphens (fst (generateGuid rnd n))),
      elementUdi (removeHyphens (fst (generateGuid rnd (n + 31))))]"
  by (simp add: drawnUdis_Suc)

lemma socialNetwork_foldl:
  "foldl (socialNetwork_step rnd) (L, C, n) nets =
     (L @ map (\<lambda>u. JObj [(''contentUdi'', JStr u)])
            (drawnUdis rnd n (length (filter (\<lambda>(key, name, url). trim url \<noteq> []) nets))),
      C @ map (\<lambda>(u, key, name, url). socialNetworkBlock u name url)
            (zip (drawnUdis rnd n (length (filter (\<lambda>(key, name, url). trim url \<noteq> []) nets)))
                 (filter (\<lambda>(key, name, url). trim url \<noteq> []) nets)),
      n + 31 * length (filter (\<lambda>(key, name, url). trim url \<noteq> []) nets))"
proof (induction nets arbitrary: L C n)
  case Nil
  show ?case by simp
next
  case (Cons net nets)
  obtain key name url where net: "net = (key, name, url)" by (cases net)
  show ?case
  proof (cases "trim url = []")
    case True
    then have "socialNetwork_step rnd (L, C, n) net = (L, C, n)"
      by (simp add: socialNetwork_step_def net)
    then show ?thesis using True Cons.IH by (simp add: net)
  next
    case False
    then have "url \<noteq> []" by auto
    with False have "socialNetwork_step rnd (L, C, n) net =
        (L @ [JObj [(''contentUdi'', JStr (elementUdi (removeHyphens (fst (generateGuid rnd n)))))]],
         C @ [socialNetworkBlock (elementUdi (removeHyphens (fst (generateGuid rnd n)))) name url],
         n + 31)"
      using generateGuid_counter [of rnd n]
      by (simp add: socialNetwork_step_def net Let_def split_def)
    then show ?thesis using False Cons.IH by (simp add: net drawnUdis_Suc)
  qed
qed

lemma buildSocialNetworksBlockList_eq:
  "buildSocialNetworksBlockList rnd n sm =
     (blockList (drawnUdis rnd n (length (populated sm)))
        (map (\<lambda>(u, key, name, url). socialNetworkBlock u name url)
             (zip (drawnUdis rnd n (length (populated sm))) (populated sm))),
      n + 31 * length (populated sm))"
  by (simp add: buildSocialNetworksBlockList_def socialNetwork_foldl populated_def blockList_def)

lemma blockList_layoutEntries [simp]:
  "layoutEntries (blockList udis cd) = map (\<lambda>u. JObj [(''contentUdi'', JStr u)]) udis"
  by (simp add: layoutEntries_def blockList_def getProp_def elements_def)

lemma blockList_contentEntries [simp]: "contentEntries (blockList udis cd) = cd"
  by (simp add: contentEntries_def blockList_def getProp_def elements_def)

lemma blockList_layoutUdis [simp]:
  "layoutUdis (blockList udis cd) = map (\<lambda>u. Some (JStr u)) udis"
  by (simp add: layoutUdis_def getProp_def comp_def)

lemma socialBlocks_contentUdis:
  "contentUdis (blockList udis (map (\<lambda>(u, key, name, url). socialNetworkBlock u name url) (zip udis xs)))
     = map (\<lambda>u. Some (JStr u)) (take (length xs) udis)"
  by (induction udis xs rule: list_induct2')
     (simp_all add: contentUdis_def getProp_def socialNetworkBlock_def split: prod.splits)

lemma length_populated: "length (populated sm) \<le> 5"
proof -
  have "length (populated sm) \<le> length (socialNetworks_of sm)"
    unfolding populated_def by (rule length_filter_le)
  then show ?thesis by (simp add: socialNetworks_of_def)
qed

lemma trim_sample:
  "trim (facebook sampleSocialMedia) \<noteq> []" "trim (linkedIn sampleSocialMedia) = []"
  "trim (instagram sampleSocialMedia) = []" "trim (youtube sampleSocialMedia) = []"
  "trim (tiktok sampleSocialMedia) \<noteq> []"
  by (simp_all add: sampleSocialMedia_def trim_def whiteSpace_def)

section \<open>Properties of the block lists\<close>

lemma count_list_distinct_set:
  "(\<forall>u\<in>set xs. count_list xs u = Suc 0) \<longleftrightarrow> distinct xs"
proof (induction xs)
  case Nil
  show ?case by simp
next
  case (Cons x xs)
  show ?case
  proof (cases "x \<in> set xs")
    case True
    then have "count_list xs x \<noteq> 0" by (simp add: count_list_0_iff)
    then show ?thesis using True by auto
  next
    case False
    then have "(\<forall>u\<in>set xs. count_list (x # xs) u = Suc 0) \<longleftrightarrow> (\<forall>u\<in>set xs. count_list xs u = Suc 0)"
      by auto
    then show ?thesis using False Cons.IH by simp
  qed
qed

lemma count_list_self_distinct:
  "list_all (\<lambda>u. count_list xs u = Suc 0) xs \<longleftrightarrow> distinct xs"
  unfolding list_all_iff by (rule count_list_distinct_set)

lemma referentiallyClosed_iff:
  "layoutUdis bl = contentUdis bl \<Longrightarrow> referentiallyClosed bl \<longleftrightarrow> distinct (layoutUdis bl)"
  by (simp add: referentiallyClosed_def count_list_self_distinct)

lemma buildPageBlocks_eq:
  "buildPageBlocks ar rnd n e =
     (JObj [(''en-US'',
             englishBlocks e (fst (buildSocialNetworksBlockList rnd (n + 341) (socialMedia e)))
               (removeHyphens (fst (generateGuid rnd n)))
               (removeHyphens (fst (generateGuid rnd (n + 31))))
               (removeHyphens (fst (generateGuid rnd (n + 62))))
               (removeHyphens (fst (generateGuid rnd (n + 93))))
               (removeHyphens (fst (generateGuid rnd (n + 124))))),
            (''ar'',
             arabicBlocks ar e (fst (buildSocialNetworksBlockList rnd (n + 341) (socialMedia e)))
               (removeHyphens (fst (generateGuid rnd (n + 155))))
               (removeHyphens (fst (generateGuid rnd (n + 186))))
               (removeHyphens (fst (generateGuid rnd (n + 217))))
               (removeHyphens (fst (generateGuid rnd (n + 248))))
               (removeHyphens (fst (generateGuid rnd (n + 279))))
               (removeHyphens (fst (generateGuid rnd (n + 310)))))],
      n + 341 + 31 * length (populated (socialMedia e)))"
  by (simp add: buildPageBlocks_def Let_def split_def generateGuid_counter
        buildSocialNetworksBlockList_eq add.commute)

lemma englishBlocks_udis:
  "layoutUdis (englishBlocks e s g1 g2 g3 g4 g5) = map (\<lambda>g. Some (JStr (elementUdi g))) [g1, g2, g3, g4, g5]"
  "contentUdis (englishBlocks e s g1 g2 g3 g4 g5) = map (\<lambda>g. Some (JStr (elementUdi g))) [g1, g2, g3, g4, g5]"
  by (simp_all add: englishBlocks_def contentUdis_def getProp_def heroImageBlock_def
        eventDescriptionBlock_def cardBlock_def destinationListBlock_def)

lemma arabicBlocks_udis:
  "layoutUdis (arabicBlocks ar e s g1 g2 g3 g4 g5 g6) = map (\<lambda>g. Some (JStr (elementUdi g))) [g1, g2, g3, g4, g5, g6]"
  "contentUdis (arabicBlocks ar e s g1 g2 g3 g4 g5 g6) = map (\<lambda>g. Some (JStr (elementUdi g))) [g1, g2, g3, g4, g5, g6]"
  by (simp_all add: arabicBlocks_def contentUdis_def getProp_def heroImageBlock_def
        eventDescriptionBlock_def cardBlock_def destinationListBlock_def imageGalleryBlock_def)

lemma social_udis_eq:
  "layoutUdis (fst (buildSocialNetworksBlockList rnd n sm))
     = contentUdis (fst (buildSocialNetworksBlockList rnd n sm))"
  by (simp add: buildSocialNetworksBlockList_eq socialBlocks_contentUdis)

lemma localeBlocks_buildPageBlocks:
  "localeBlocks ''en-US'' (fst (buildPageBlocks ar rnd n e)) =
     englishBlocks e (fst (buildSocialNetworksBlockList rnd (n + 341) (socialMedia e)))
               (removeHyphens (fst (generateGuid rnd n)))
               (removeHyphens (fst (generateGuid rnd (n + 31))))
               (removeHyphens (fst (generateGuid rnd (n + 62))))
               (removeHyphens (fst (generateGuid rnd (n + 93))))
               (removeHyphens (fst (generateGuid rnd (n + 124))))"
  "localeBlocks ''ar'' (fst (buildPageBlocks ar rnd n e)) =
     arabicBlocks ar e (fst (buildSocialNetworksBlockList rnd (n + 341) (socialMedia e)))
               (removeHyphens (fst (generateGuid rnd (n + 155))))
               (removeHyphens (fst (generateGuid rnd (n + 186))))
               (removeHyphens (fst (generateGuid rnd (n + 217))))
               (removeHyphens (fst (generateGuid rnd (n + 248))))
               (removeHyphens (fst (generateGuid rnd (n + 279))))
               (removeHyphens (fst (generateGuid rnd (n + 310))))"
  by (simp_all add: buildPageBlocks_eq localeBlocks_def getProp_def)

lemma generateGuid_zeroRandom:
  "fst (generateGuid zeroRandom n) = ''00000000-0000-4000-8000-000000000000''"
  by (simp add: generateGuid_def zeroRandom_def Let_def split_def toString16_def hexDigit_def)

lemma distinct_layoutUdis_social:
  "distinct (layoutUdis (fst (buildSocialNetworksBlockList rnd n sm)))
     \<longleftrightarrow> distinct (drawnUdis rnd n (length (populated sm)))"
  by (simp add: buildSocialNetworksBlockList_eq distinct_map inj_on_def)

text \<open>
  C6 (as amended).  Social block cardinality and order.  For every record and every
  random source, \<open>buildSocialNetworksBlockList\<close> emits one layout entry and one content
  entry for each network whose URL is not blank after trimming, in the order facebook,
  linkedIn, instagram, youtube, tiktok; the layout entry and the content entry of a
  network carry the same identifier (the two identifier sequences are equal), each
  content entry carries the display name and the URL of its network, and blank networks
  are left out, so there are at most five entries.  The entries are paired one to one
  by identifier (every identifier of the layout is the identifier of exactly one
  content entry, and conversely) exactly when the identifiers drawn are pairwise
  distinct, which nothing in the code checks.  With only facebook and tiktok populated
  there are two layout entries and two content entries, for Facebook and TikTok.
\<close>

theorem C6_social_block_list:
  "layoutEntries (fst (buildSocialNetworksBlockList rnd n sm))
     = map (\<lambda>u. JObj [(''contentUdi'', JStr u)]) (drawnUdis rnd n (length (populated sm)))
   \<and> contentEntries (fst (buildSocialNetworksBlockList rnd n sm))
     = map (\<lambda>(u, key, name, url). socialNetworkBlock u name url)
           (zip (drawnUdis rnd n (length (populated sm))) (populated sm))
   \<and> length (layoutEntries (fst (buildSocialNetworksBlockList rnd n sm))) = length (populated sm)
   \<and> length (contentEntries (fst (buildSocialNetworksBlockList rnd n sm))) = length (populated sm)
   \<and> layoutUdis (fst (buildSocialNetworksBlockList rnd n sm))
       = contentUdis (fst (buildSocialNetworksBlockList rnd n sm))
   \<and> (referentiallyClosed (fst (buildSocialNetworksBlockList rnd n sm))
        \<longleftrightarrow> distinct (drawnUdis rnd n (length (populated sm))))
   \<and> length (populated sm) \<le> 5
   \<and> (trim (facebook sm) \<noteq> [] \<and> trim (linkedIn sm) = [] \<and> trim (instagram sm) = []
        \<and> trim (youtube sm) = [] \<and> trim (tiktok sm) \<noteq> []
      \<longrightarrow> length (layoutEntries (fst (buildSocialNetworksBlockList rnd n sm))) = 2
        \<and> length (contentEntries (fst (buildSocialNetworksBlockList rnd n sm))) = 2
        \<and> map (getProp ''socialNetwork'') (contentEntries (fst (buildSocialNetworksBlockList rnd n sm)))
            = [Some (JArr [JStr ''Facebook'']), Some (JArr [JStr ''TikTok''])])"
proof -
  have two: "populated sm = [(''facebook'', ''Facebook'', facebook sm), (''tiktok'', ''TikTok'', tiktok sm)]"
    if "trim (facebook sm) \<noteq> []" "trim (linkedIn sm) = []" "trim (instagram sm) = []"
       "trim (youtube sm) = []" "trim (tiktok sm) \<noteq> []"
    using that by (simp add: populated_def socialNetworks_of_def)
  have closed: "referentiallyClosed (fst (buildSocialNetworksBlockList rnd n sm))
        \<longleftrightarrow> distinct (drawnUdis rnd n (length (populated sm)))"
    using referentiallyClosed_iff [OF social_udis_eq [of rnd n sm]]
    by (simp only: distinct_layoutUdis_social)
  have rest: "layoutEntries (fst (buildSocialNetworksBlockList rnd n sm))
     = map (\<lambda>u. JObj [(''contentUdi'', JStr u)]) (drawnUdis rnd n (length (populated sm)))
   \<and> contentEntries (fst (buildSocialNetworksBlockList rnd n sm))
     = map (\<lambda>(u, key, name, url). socialNetworkBlock u name url)
           (zip (drawnUdis rnd n (length (populated sm))) (populated sm))
   \<and> length (layoutEntries (fst (buildSocialNetworksBlockList rnd n sm))) = length (populated sm)
   \<and> length (contentEntries (fst (buildSocialNetworksBlockList rnd n sm))) = length (populated sm)
   \<and> layoutUdis (fst (buildSocialNetworksBlockList rnd n sm))
       = contentUdis (fst (buildSocialNetworksBlockList rnd n sm))
   \<and> length (populated sm) \<le> 5
   \<and> (trim (facebook sm) \<noteq> [] \<and> trim (linkedIn sm) = [] \<and> trim (instagram sm) = []
        \<and> trim (youtube sm) = [] \<and> trim (tiktok sm) \<noteq> []
      \<longrightarrow> length (layoutEntries (fst (buildSocialNetworksBlockList rnd n sm))) = 2
        \<and> length (contentEntries (fst (buildSocialNetworksBlockList rnd n sm))) = 2
        \<and> map (getProp ''socialNetwork'') (contentEntries (fst (buildSocialNetworksBlockList rnd n sm)))
            = [Some (JArr [JStr ''Facebook'']), Some (JArr [JStr ''TikTok''])])"
    unfolding buildSocialNetworksBlockList_eq fst_conv
    using length_populated [of sm]
    apply (simp add: socialBlocks_contentUdis)
    apply (intro impI)
    apply (simp add: two drawnUdis_2 socialNetworkBlock_def getProp_def)
    done
  show ?thesis
    using rest closed by blast
qed

lemma populated_sample:
  "populated sampleSocialMedia =
      [(''facebook'', ''Facebook'', facebook sampleSocialMedia),
       (''tiktok'', ''TikTok'', tiktok sampleSocialMedia)]"
  using trim_sample by (simp add: populated_def socialNetworks_of_def)

lemma drawnUdis_countingRandom:
  "distinct (drawnUdis countingRandom 0 (length (populated sampleSocialMedia)))"
  by (simp add: populated_sample drawnUdis_2 generateGuid_def countingRandom_def
        Let_def split_def toString16_def hexDigit_def removeHyphens_def elementUdi_def)

text \<open>
  The sample record has facebook and tiktok populated.  With the draws 0, 1, 2, ... the
  two identifiers drawn differ: two layout entries and two content entries, for
  Facebook and TikTok, paired one to one by identifier.
\<close>

theorem C6_social_block_list_witness:
  "length (layoutEntries (fst (buildSocialNetworksBlockList countingRandom 0 sampleSocialMedia))) = 2
   \<and> length (contentEntries (fst (buildSocialNetworksBlockList countingRandom 0 sampleSocialMedia))) = 2
   \<and> map (getProp ''socialNetwork'')
         (contentEntries (fst (buildSocialNetworksBlockList countingRandom 0 sampleSocialMedia)))
       = [Some (JArr [JStr ''Facebook'']), Some (JArr [JStr ''TikTok''])]
   \<and> referentiallyClosed (fst (buildSocialNetworksBlockList countingRandom 0 sampleSocialMedia))"
  using C6_social_block_list [of countingRandom 0 sampleSocialMedia] trim_sample
    drawnUdis_countingRandom
  by blast

text \<open>
  C6 as stated fails for a random source that repeats: with every draw 0 the two
  entries get the same identifier, and each identifier of the layout is the identifier
  of two content entries.
\<close>

theorem C6_counterexample:
  "layoutUdis (fst (buildSocialNetworksBlockList zeroRandom 0 sampleSocialMedia))
     = [Some (JStr ''umb://element/00000000000040008000000000000000''),
        Some (JStr ''umb://element/00000000000040008000000000000000'')]
   \<and> map (count_list (contentUdis (fst (buildSocialNetworksBlockList zeroRandom 0 sampleSocialMedia))))
         (layoutUdis (fst (buildSocialNetworksBlockList zeroRandom 0 sampleSocialMedia)))
       = [2, 2]"
proof -
  have l: "layoutUdis (fst (buildSocialNetworksBlockList zeroRandom 0 sampleSocialMedia))
      = [Some (JStr ''umb://element/00000000000040008000000000000000''),
         Some (JStr ''umb://element/00000000000040008000000000000000'')]"
    by (simp add: buildSocialNetworksBlockList_eq populated_sample drawnUdis_2
          generateGuid_zeroRandom removeHyphens_def elementUdi_def)
  have c: "contentUdis (fst (buildSocialNetworksBlockList zeroRandom 0 sampleSocialMedia))
      = [Some (JStr ''umb://element/00000000000040008000000000000000''),
         Some (JStr ''umb://element/00000000000040008000000000000000'')]"
    using l by (simp only: social_udis_eq [symmetric])
  show ?thesis
    unfolding c l by simp
qed

text \<open>
  C7 (as amended).  Referential closure.  In every block list the mapper builds (the
  social-networks block list and the English and the Arabic page-block list, of five
  and six blocks) the identifier sequence of the layout and the identifier sequence of
  the content entries are equal, position by position and in length.  The generator
  keeps no registry of the identifiers it has drawn: when the identifiers of a block
  list are pairwise distinct, each identifier of its layout has exactly one content
  entry and each content entry is referenced exactly once.
\<close>

theorem C7_referential_closure:
  "layoutUdis (fst (buildSocialNetworksBlockList rnd n sm))
     = contentUdis (fst (buildSocialNetworksBlockList rnd n sm))
   \<and> layoutUdis (localeBlocks ''en-US'' (fst (buildPageBlocks ar rnd n e)))
     = contentUdis (localeBlocks ''en-US'' (fst (buildPageBlocks ar rnd n e)))
   \<and> layoutUdis (localeBlocks ''ar'' (fst (buildPageBlocks ar rnd n e)))
     = contentUdis (localeBlocks ''ar'' (fst (buildPageBlocks ar rnd n e)))
   \<and> length (layoutUdis (localeBlocks ''en-US'' (fst (buildPageBlocks ar rnd n e)))) = 5
   \<and> length (layoutUdis (localeBlocks ''ar'' (fst (buildPageBlocks ar rnd n e)))) = 6
   \<and> (distinct (layoutUdis (fst (buildSocialNetworksBlockList rnd n sm)))
        \<longrightarrow> referentiallyClosed (fst (buildSocialNetworksBlockList rnd n sm)))
   \<and> (distinct (layoutUdis (localeBlocks ''en-US'' (fst (buildPageBlocks ar rnd n e))))
        \<longrightarrow> referentiallyClosed (localeBlocks ''en-US'' (fst (buildPageBlocks ar rnd n e))))
   \<and> (distinct (layoutUdis (localeBlocks ''ar'' (fst (buildPageBlocks ar rnd n e))))
        \<longrightarrow> referentiallyClosed (localeBlocks ''ar'' (fst (buildPageBlocks ar rnd n e))))"
proof -
  have s: "layoutUdis (fst (buildSocialNetworksBlockList rnd n sm))
     = contentUdis (fst (buildSocialNetworksBlockList rnd n sm))"
    by (rule social_udis_eq)
  have en: "layoutUdis (localeBlocks ''en-US'' (fst (buildPageBlocks ar rnd n e)))
     = contentUdis (localeBlocks ''en-US'' (fst (buildPageBlocks ar rnd n e)))"
    by (simp only: localeBlocks_buildPageBlocks englishBlocks_udis)
  have arb: "layoutUdis (localeBlocks ''ar'' (fst (buildPageBlocks ar rnd n e)))
     = contentUdis (localeBlocks ''ar'' (fst (buildPageBlocks ar rnd n e)))"
    by (simp only: localeBlocks_buildPageBlocks arabicBlocks_udis)
  have len: "length (layoutUdis (localeBlocks ''en-US'' (fst (buildPageBlocks ar rnd n e)))) = 5"
       "length (layoutUdis (localeBlocks ''ar'' (fst (buildPageBlocks ar rnd n e)))) = 6"
    by (simp_all add: localeBlocks_buildPageBlocks englishBlocks_udis arabicBlocks_udis)
  show ?thesis
    using s en arb len
      referentiallyClosed_iff [OF s] referentiallyClosed_iff [OF en] referentiallyClosed_iff [OF arb]
    by blast
qed

text \<open>
  C7 as stated fails for a random source that repeats: with every draw 0 the two social
  blocks (facebook and tiktok) get the same identifier, and the identifier of a layout
  entry is that of two content entries.
\<close>

theorem C7_counterexample:
  "\<not> referentiallyClosed (fst (buildSocialNetworksBlockList zeroRandom 0 sampleSocialMedia))"
proof -
  have p: "populated sampleSocialMedia =
      [(''facebook'', ''Facebook'', facebook sampleSocialMedia),
       (''tiktok'', ''TikTok'', tiktok sampleSocialMedia)]"
    using trim_sample by (simp add: populated_def socialNetworks_of_def)
  have "layoutUdis (fst (buildSocialNetworksBlockList zeroRandom 0 sampleSocialMedia))
      = [Some (JStr ''umb://element/00000000000040008000000000000000''),
         Some (JStr ''umb://element/00000000000040008000000000000000'')]"
    by (simp add: buildSocialNetworksBlockList_eq p drawnUdis_2 generateGuid_zeroRandom
          removeHyphens_def elementUdi_def)
  then have "\<not> distinct (layoutUdis (fst (buildSocialNetworksBlockList zeroRandom 0 sampleSocialMedia)))"
    by simp
  then show ?thesis
    using referentiallyClosed_iff [OF social_udis_eq [of zeroRandom 0 sampleSocialMedia]] by simp
qed


lemma sample_distinct:
  "distinct (layoutUdis (fst (buildSocialNetworksBlockList countingRandom 0 sampleSocialMedia)))"
  "distinct (layoutUdis (localeBlocks ''en-US'' (fst (buildPageBlocks sampleArabicText countingRandom 0 sampleCrmEvent))))"
  "distinct (layoutUdis (localeBlocks ''ar'' (fst (buildPageBlocks sampleArabicText countingRandom 0 sampleCrmEvent))))"
proof -
  have p: "populated sampleSocialMedia =
      [(''facebook'', ''Facebook'', facebook sampleSocialMedia),
       (''tiktok'', ''TikTok'', tiktok sampleSocialMedia)]"
    using trim_sample by (simp add: populated_def socialNetworks_of_def)
  show "distinct (layoutUdis (fst (buildSocialNetworksBlockList countingRandom 0 sampleSocialMedia)))"
    by (simp add: buildSocialNetworksBlockList_eq p drawnUdis_2 generateGuid_def countingRandom_def
          Let_def split_def toString16_def hexDigit_def removeHyphens_def elementUdi_def)
  show "distinct (layoutUdis (localeBlocks ''en-US'' (fst (buildPageBlocks sampleArabicText countingRandom 0 sampleCrmEvent))))"
    by (simp add: localeBlocks_buildPageBlocks englishBlocks_udis generateGuid_def countingRandom_def
          Let_def split_def toString16_def hexDigit_def removeHyphens_def elementUdi_def)
  show "distinct (layoutUdis (localeBlocks ''ar'' (fst (buildPageBlocks sampleArabicText countingRandom 0 sampleCrmEvent))))"
    by (simp add: localeBlocks_buildPageBlocks arabicBlocks_udis generateGuid_def countingRandom_def
          Let_def split_def toString16_def hexDigit_def removeHyphens_def elementUdi_def)
qed

text \<open>
  With the draws 0, 1, 2, ... the identifiers of each block list of the sample event are
  pairwise distinct, and the three block lists are referentially closed.
\<close>

theorem C7_referential_closure_witness:
  "referentiallyClosed (fst (buildSocialNetworksBlockList countingRandom 0 sampleSocialMedia))
   \<and> referentiallyClosed (localeBlocks ''en-US'' (fst (buildPageBlocks sampleArabicText countingRandom 0 sampleCrmEvent)))
   \<and> referentiallyClosed (localeBlocks ''ar'' (fst (buildPageBlocks sampleArabicText countingRandom 0 sampleCrmEvent)))"
  using C7_referential_closure [of countingRandom 0 sampleSocialMedia sampleArabicText sampleCrmEvent]
    sample_distinct
  by blast

section \<open>Properties of mapCrmEventToUmbraco\<close>

lemma mapCrmEventToUmbraco_eq:
  "mapCrmEventToUmbraco ar rnd n e parentId =
     (if truthyStr parentId
      then JObj (fst (baseData ar rnd n e) @ [(''parentId'', JStr (the parentId))])
      else JObj (fst (baseData ar rnd n e)),
      snd (baseData ar rnd n e))"
  by (simp add: mapCrmEventToUmbraco_def split_def Let_def)

lemma baseData_fields:
  "fst (baseData ar rnd n e) =
     [(''name'', localized (JStr (title e))), (''contentTypeAlias'', JStr ''decEvent'')]
     @ eventFields e (fst (buildSocialNetworksBlockList rnd n (socialMedia e)))
     @ [(''pageBlocks'',
         fst (buildPageBlocks ar rnd (snd (buildSocialNetworksBlockList rnd n (socialMedia e))) e))]"
  by (simp add: baseData_def split_def Let_def)

lemma baseData_no_parentId: "map_of (fst (baseData ar rnd n e)) ''parentId'' = None"
  by (simp add: baseData_fields eventFields_def map_of_append)

lemma baseData_lastUpdatedDate:
  "map_of (fst (baseData ar rnd n e)) ''lastUpdatedDate''
     = Some (invariant (JStr ([dquote] @ lastUpdatedDate e @ [dquote])))"
  by (simp add: baseData_fields eventFields_def map_of_append)

lemma baseData_eventId:
  "map_of (fst (baseData ar rnd n e)) ''eventId''
     = Some (invariant (JStr (numberToString (eventId e))))"
  by (simp add: baseData_fields eventFields_def map_of_append)

lemma baseData_organiserSocialNetworks:
  "map_of (fst (baseData ar rnd n e)) ''organiserSocialNetworks''
     = Some (invariant (fst (buildSocialNetworksBlockList rnd n (socialMedia e))))"
  by (simp add: baseData_fields eventFields_def map_of_append)

text \<open>
  Each call of the mapper draws its identifiers afresh: with the parent 123 on the draws
  that are all 0, and without a parent on the draws 0, 1, 2, ..., the social-networks
  block lists of the two payloads of the sample event differ.
\<close>

lemma mapCrmEventToUmbraco_other_draws:
  "getProp ''organiserSocialNetworks''
       (fst (mapCrmEventToUmbraco sampleArabicText zeroRandom 0 sampleCrmEvent (Some ''123'')))
     \<noteq> getProp ''organiserSocialNetworks''
       (fst (mapCrmEventToUmbraco sampleArabicText countingRandom 0 sampleCrmEvent None))"
proof -
  have sm: "socialMedia sampleCrmEvent = sampleSocialMedia"
    by (simp add: sampleCrmEvent_def)
  have "\<not> distinct (drawnUdis zeroRandom 0 (length (populated sampleSocialMedia)))"
    by (simp add: populated_sample drawnUdis_2 generateGuid_zeroRandom)
  then have "\<not> distinct (layoutUdis (fst (buildSocialNetworksBlockList zeroRandom 0 sampleSocialMedia)))"
    unfolding distinct_layoutUdis_social .
  with sample_distinct(1)
  have "fst (buildSocialNetworksBlockList zeroRandom 0 sampleSocialMedia)
      \<noteq> fst (buildSocialNetworksBlockList countingRandom 0 sampleSocialMedia)"
    by auto
  then show ?thesis
    by (simp add: mapCrmEventToUmbraco_eq truthyStr_def getProp_def map_of_append map_add_def
          baseData_organiserSocialNetworks invariant_def sm)
qed

lemma mapCrmEventToUmbraco_part_000_eq:
  "mapCrmEventToUmbraco_part_000 rnd n e parentId =
     (if truthyStr parentId
      then JObj (fst (baseData_part_000 rnd n e) @ [(''parentId'', JStr (the parentId))])
      else JObj (fst (baseData_part_000 rnd n e)),
      snd (baseData_part_000 rnd n e))"
  by (simp add: mapCrmEventToUmbraco_part_000_def split_def Let_def)

lemma baseData_part_000_no_parentId: "map_of (fst (baseData_part_000 rnd n e)) ''parentId'' = None"
  by (simp add: baseData_part_000_def split_def Let_def)

text \<open>
  C9 (as amended).  Create payload and \<open>parentId\<close>.  For every event: called without a
  \<open>parentId\<close>, \<open>mapCrmEventToUmbraco\<close> returns \<open>baseData\<close>, which has no \<open>parentId\<close>
  property; called with the empty string it returns the same as without a \<open>parentId\<close>;
  called with a non-empty \<open>parentId\<close> it returns the properties of \<open>baseData\<close> followed
  by \<open>parentId\<close> with the value supplied.  These are the only two shapes.  For the same
  draws of the random source (the same source from the same draw on), every other
  property is the same in both payloads, and so is the number of draws taken.  The same
  holds of the copy of the function in \<open>part_000\<close>, with its own \<open>baseData\<close>.
\<close>

theorem C9_parentId_shape:
  "fst (mapCrmEventToUmbraco ar rnd n e None) = JObj (fst (baseData ar rnd n e))
   \<and> getProp ''parentId'' (fst (mapCrmEventToUmbraco ar rnd n e None)) = None
   \<and> (p \<noteq> [] \<longrightarrow>
        fst (mapCrmEventToUmbraco ar rnd n e (Some p))
          = JObj (fst (baseData ar rnd n e) @ [(''parentId'', JStr p)])
        \<and> getProp ''parentId'' (fst (mapCrmEventToUmbraco ar rnd n e (Some p))) = Some (JStr p))
   \<and> (\<forall>k. k \<noteq> ''parentId'' \<longrightarrow>
          getProp k (fst (mapCrmEventToUmbraco ar rnd n e (Some p)))
            = getProp k (fst (mapCrmEventToUmbraco ar rnd n e None)))
   \<and> snd (mapCrmEventToUmbraco ar rnd n e (Some p)) = snd (mapCrmEventToUmbraco ar rnd n e None)
   \<and> (fst (mapCrmEventToUmbraco ar rnd n e q) = JObj (fst (baseData ar rnd n e))
        \<or> (\<exists>p'. q = Some p' \<and> p' \<noteq> [] \<and>
              fst (mapCrmEventToUmbraco ar rnd n e q)
                = JObj (fst (baseData ar rnd n e) @ [(''parentId'', JStr p')])))
   \<and> mapCrmEventToUmbraco ar rnd n e (Some []) = mapCrmEventToUmbraco ar rnd n e None
   \<and> getProp ''parentId'' (fst (mapCrmEventToUmbraco ar rnd n e (Some []))) = None
   \<and> fst (mapCrmEventToUmbraco_part_000 rnd n e None) = JObj (fst (baseData_part_000 rnd n e))
   \<and> getProp ''parentId'' (fst (mapCrmEventToUmbraco_part_000 rnd n e None)) = None
   \<and> mapCrmEventToUmbraco_part_000 rnd n e (Some []) = mapCrmEventToUmbraco_part_000 rnd n e None
   \<and> (p \<noteq> [] \<longrightarrow>
        fst (mapCrmEventToUmbraco_part_000 rnd n e (Some p))
          = JObj (fst (baseData_part_000 rnd n e) @ [(''parentId'', JStr p)])
        \<and> getProp ''parentId'' (fst (mapCrmEventToUmbraco_part_000 rnd n e (Some p))) = Some (JStr p))
   \<and> (\<forall>k. k \<noteq> ''parentId'' \<longrightarrow>
          getProp k (fst (mapCrmEventToUmbraco_part_000 rnd n e (Some p)))
            = getProp k (fst (mapCrmEventToUmbraco_part_000 rnd n e None)))
   \<and> (fst (mapCrmEventToUmbraco_part_000 rnd n e q) = JObj (fst (baseData_part_000 rnd n e))
        \<or> (\<exists>p'. q = Some p' \<and> p' \<noteq> [] \<and>
              fst (mapCrmEventToUmbraco_part_000 rnd n e q)
                = JObj (fst (baseData_part_000 rnd n e) @ [(''parentId'', JStr p')])))"
proof -
  have main: "fst (mapCrmEventToUmbraco ar rnd n e None) = JObj (fst (baseData ar rnd n e))
   \<and> getProp ''parentId'' (fst (mapCrmEventToUmbraco ar rnd n e None)) = None
   \<and> (p \<noteq> [] \<longrightarrow>
        fst (mapCrmEventToUmbraco ar rnd n e (Some p))
          = JObj (fst (baseData ar rnd n e) @ [(''parentId'', JStr p)])
        \<and> getProp ''parentId'' (fst (mapCrmEventToUmbraco ar rnd n e (Some p))) = Some (JStr p))
   \<and> (\<forall>k. k \<noteq> ''parentId'' \<longrightarrow>
          getProp k (fst (mapCrmEventToUmbraco ar rnd n e (Some p)))
            = getProp k (fst (mapCrmEventToUmbraco ar rnd n e None)))
   \<and> snd (mapCrmEventToUmbraco ar rnd n e (Some p)) = snd (mapCrmEventToUmbraco ar rnd n e None)
   \<and> (fst (mapCrmEventToUmbraco ar rnd n e q) = JObj (fst (baseData ar rnd n e))
        \<or> (\<exists>p'. q = Some p' \<and> p' \<noteq> [] \<and>
              fst (mapCrmEventToUmbraco ar rnd n e q)
                = JObj (fst (baseData ar rnd n e) @ [(''parentId'', JStr p')])))
   \<and> mapCrmEventToUmbraco ar rnd n e (Some []) = mapCrmEventToUmbraco ar rnd n e None
   \<and> getProp ''parentId'' (fst (mapCrmEventToUmbraco ar rnd n e (Some []))) = None"
    by (cases q)
       (simp_all add: mapCrmEventToUmbraco_eq truthyStr_def getProp_def baseData_no_parentId
          map_of_append map_add_def split: option.splits)
  have copy: "fst (mapCrmEventToUmbraco_part_000 rnd n e None) = JObj (fst (baseData_part_000 rnd n e))
   \<and> getProp ''parentId'' (fst (mapCrmEventToUmbraco_part_000 rnd n e None)) = None
   \<and> mapCrmEventToUmbraco_part_000 rnd n e (Some []) = mapCrmEventToUmbraco_part_000 rnd n e None
   \<and> (p \<noteq> [] \<longrightarrow>
        fst (mapCrmEventToUmbraco_part_000 rnd n e (Some p))
          = JObj (fst (baseData_part_000 rnd n e) @ [(''parentId'', JStr p)])
        \<and> getProp ''parentId'' (fst (mapCrmEventToUmbraco_part_000 rnd n e (Some p))) = Some (JStr p))
   \<and> (\<forall>k. k \<noteq> ''parentId'' \<longrightarrow>
          getProp k (fst (mapCrmEventToUmbraco_part_000 rnd n e (Some p)))
            = getProp k (fst (mapCrmEventToUmbraco_part_000 rnd n e None)))
   \<and> (fst (mapCrmEventToUmbraco_part_000 rnd n e q) = JObj (fst (baseData_part_000 rnd n e))
        \<or> (\<exists>p'. q = Some p' \<and> p' \<noteq> [] \<and>
              fst (mapCrmEventToUmbraco_part_000 rnd n e q)
                = JObj (fst (baseData_part_000 rnd n e) @ [(''parentId'', JStr p')])))"
    by (cases q)
       (simp_all add: mapCrmEventToUmbraco_part_000_eq truthyStr_def getProp_def
          baseData_part_000_no_parentId map_of_append map_add_def split: option.splits)
  show ?thesis
    using main copy by blast
qed

text \<open>
  The sample event with parent 123, without a parent, and with the empty string.
\<close>

theorem C9_parentId_shape_witness:
  "getProp ''parentId'' (fst (mapCrmEventToUmbraco sampleArabicText zeroRandom 0 sampleCrmEvent (Some ''123'')))
     = Some (JStr ''123'')
   \<and> getProp ''parentId'' (fst (mapCrmEventToUmbraco sampleArabicText zeroRandom 0 sampleCrmEvent None)) = None
   \<and> getProp ''contentTypeAlias'' (fst (mapCrmEventToUmbraco sampleArabicText zeroRandom 0 sampleCrmEvent (Some ''123'')))
     = getProp ''contentTypeAlias'' (fst (mapCrmEventToUmbraco sampleArabicText zeroRandom 0 sampleCrmEvent None))
   \<and> mapCrmEventToUmbraco sampleArabicText zeroRandom 0 sampleCrmEvent (Some [])
     = mapCrmEventToUmbraco sampleArabicText zeroRandom 0 sampleCrmEvent None
   \<and> getProp ''parentId'' (fst (mapCrmEventToUmbraco_part_000 zeroRandom 0 sampleCrmEvent (Some ''123'')))
     = Some (JStr ''123'')
   \<and> getProp ''contentTypeAlias'' (fst (mapCrmEventToUmbraco_part_000 zeroRandom 0 sampleCrmEvent (Some ''123'')))
     = getProp ''contentTypeAlias'' (fst (mapCrmEventToUmbraco_part_000 zeroRandom 0 sampleCrmEvent None))"
proof -
  have k: "''contentTypeAlias'' \<noteq> ''parentId''" and p: "''123'' \<noteq> []" by simp_all
  note c = C9_parentId_shape [of sampleArabicText zeroRandom 0 sampleCrmEvent "''123''" None]
  note none = c [THEN conjunct2, THEN conjunct1]
  note some = c [THEN conjunct2, THEN conjunct2, THEN conjunct1, THEN mp, OF p, THEN conjunct2]
  note other = c [THEN conjunct2, THEN conjunct2, THEN conjunct2, THEN conjunct1, THEN spec, THEN mp, OF k]
  note empty = c [THEN conjunct2, THEN conjunct2, THEN conjunct2, THEN conjunct2, THEN conjunct2,
                  THEN conjunct2, THEN conjunct1]
  note copy = c [THEN conjunct2, THEN conjunct2, THEN conjunct2, THEN conjunct2, THEN conjunct2,
                 THEN conjunct2, THEN conjunct2, THEN conjunct2, THEN conjunct2, THEN conjunct2,
                 THEN conjunct2]
  note some' = copy [THEN conjunct1, THEN mp, OF p, THEN conjunct2]
  note other' = copy [THEN conjunct2, THEN conjunct1, THEN spec, THEN mp, OF k]
  show ?thesis
    by (intro conjI) (rule some, rule none, rule other, rule empty, rule some', rule other')
qed

text \<open>
  C9 as stated fails for the empty string: it is a supplied \<open>parentId\<close>, the test
  \<open>if (parentId)\<close> is false for it, and the payload has no \<open>parentId\<close> property.
\<close>

theorem C9_counterexample:
  "getProp ''parentId'' (fst (mapCrmEventToUmbraco sampleArabicText zeroRandom 0 sampleCrmEvent (Some [])))
     = None"
  by (simp add: mapCrmEventToUmbraco_eq truthyStr_def getProp_def baseData_no_parentId)

section \<open>Re-running the reconciliation\<close>

lemma payloadString_mapped:
  "payloadString ''lastUpdatedDate'' (fst (mapCrmEventToUmbraco ar rnd n e p))
     = [dquote] @ lastUpdatedDate e @ [dquote]"
  "payloadString ''eventId'' (fst (mapCrmEventToUmbraco ar rnd n e p)) = numberToString (eventId e)"
  by (simp_all add: mapCrmEventToUmbraco_eq payloadString_def getProp_def map_of_append map_add_def
        baseData_lastUpdatedDate baseData_eventId invariant_def)

lemma compareEvents_stored:
  "compareEvents [e] [storedEvent d (fst (mapCrmEventToUmbraco ar rnd n e p))] =
     (if normalizeDateString (lastUpdatedDate e)
           \<noteq> normalizeDateString ([dquote] @ lastUpdatedDate e @ [dquote])
      then \<lparr>toUpdate = [(storedEvent d (fst (mapCrmEventToUmbraco ar rnd n e p)), e)], toCreate = []\<rparr>
      else \<lparr>toUpdate = [], toCreate = []\<rparr>)"
  by (simp add: compareEvents_def compareEvents_step_def umbracoMap_of_def storedEvent_def
        payloadString_mapped Let_def)

lemma matchQuoted_wrapped:
  "matchQuoted (dquote # s @ [dquote]) = (if list_ex lineTerminator s then None else Some s)"
  by (simp add: matchQuoted_def)

lemma normalizeDateString_wrapped:
  "normalizeDateString (dquote # s @ [dquote]) =
     (if list_ex lineTerminator s then dquote # s @ [dquote] else s)"
  by (simp add: normalizeDateString_def matchQuoted_wrapped)

lemma normalizeDateString_length: "length (normalizeDateString s) \<le> length s"
  by (simp add: normalizeDateString_def matchQuoted_def)

lemma rerun_synchronised_iff:
  "compareEvents [e] [storedEvent d (fst (mapCrmEventToUmbraco ar rnd n e p))]
       = \<lparr>toUpdate = [], toCreate = []\<rparr>
   \<longleftrightarrow> \<not> list_ex lineTerminator (lastUpdatedDate e) \<and> matchQuoted (lastUpdatedDate e) = None"
proof -
  let ?s = "lastUpdatedDate e"
  have eq: "compareEvents [e] [storedEvent d (fst (mapCrmEventToUmbraco ar rnd n e p))]
       = \<lparr>toUpdate = [], toCreate = []\<rparr>
     \<longleftrightarrow> normalizeDateString ?s = normalizeDateString (dquote # ?s @ [dquote])"
    by (simp add: compareEvents_stored)
  show ?thesis
  proof (cases "list_ex lineTerminator ?s")
    case True
    have "length (normalizeDateString ?s) < length (dquote # ?s @ [dquote])"
      using normalizeDateString_length [of ?s] by simp
    then have "normalizeDateString ?s \<noteq> dquote # ?s @ [dquote]"
      by auto
    moreover have "normalizeDateString (dquote # ?s @ [dquote]) = dquote # ?s @ [dquote]"
      using True by (simp only: normalizeDateString_wrapped if_True)
    ultimately show ?thesis using True eq by simp
  next
    case False
    then have w: "normalizeDateString (dquote # ?s @ [dquote]) = ?s"
      by (simp only: normalizeDateString_wrapped if_False)
    show ?thesis
    proof (cases "matchQuoted ?s")
      case None
      then have "normalizeDateString ?s = ?s" by (simp add: normalizeDateString_def)
      then show ?thesis using False None eq w by simp
    next
      case (Some g)
      then have "length g < length ?s"
        unfolding matchQuoted_def by (cases "2 \<le> length ?s") (auto split: if_splits)
      then have "g \<noteq> ?s" by auto
      moreover have "normalizeDateString ?s = g" using Some by (simp add: normalizeDateString_def)
      ultimately show ?thesis using False Some eq w by simp
    qed
  qed
qed

text \<open>
  C2.  Cross-run idempotence fails on the code for a CRM marker that is already wrapped
  in quotes.  The mapper writes the marker wrapped once more, \<open>normalizeDateString\<close>
  strips one layer from each side, and the stored marker keeps a layer that the CRM
  marker has lost: the re-run puts the event in \<open>toUpdate\<close>.  The CMS event is the one
  that stores the mapper's payload for the event, whatever the Arabic texts, the random
  source and the parent.  (By \<open>rerun_synchronised_iff\<close> the re-run is empty exactly for
  the markers that hold no line terminator and are not wrapped.)
\<close>

theorem C2_rerun_wrapped_marker:
  "toUpdate (compareEvents
      [sampleCrmEvent\<lparr>lastUpdatedDate := dquote # ''2024-01-01'' @ [dquote]\<rparr>]
      [storedEvent ''doc-1''
         (fst (mapCrmEventToUmbraco ar rnd n
                 (sampleCrmEvent\<lparr>lastUpdatedDate := dquote # ''2024-01-01'' @ [dquote]\<rparr>) p))])
     = [(storedEvent ''doc-1''
           (fst (mapCrmEventToUmbraco ar rnd n
                   (sampleCrmEvent\<lparr>lastUpdatedDate := dquote # ''2024-01-01'' @ [dquote]\<rparr>) p)),
         sampleCrmEvent\<lparr>lastUpdatedDate := dquote # ''2024-01-01'' @ [dquote]\<rparr>)]
   \<and> lastUpdatedDate_u (storedEvent ''doc-1''
         (fst (mapCrmEventToUmbraco ar rnd n
                 (sampleCrmEvent\<lparr>lastUpdatedDate := dquote # ''2024-01-01'' @ [dquote]\<rparr>) p)))
       = [dquote, dquote] @ ''2024-01-01'' @ [dquote, dquote]"
proof -
  define e where "e = sampleCrmEvent\<lparr>lastUpdatedDate := dquote # ''2024-01-01'' @ [dquote]\<rparr>"
  have d: "lastUpdatedDate e = dquote # ''2024-01-01'' @ [dquote]"
    by (simp add: e_def)
  have n1: "normalizeDateString (lastUpdatedDate e) = ''2024-01-01''"
    using normalizeDateString_wrapped [of "''2024-01-01''"]
    by (simp add: d lineTerminator_def)
  have n2: "normalizeDateString (dquote # lastUpdatedDate e @ [dquote]) = lastUpdatedDate e"
    using normalizeDateString_wrapped [of "lastUpdatedDate e"]
    by (simp add: d lineTerminator_def dquote_def)
  have "normalizeDateString (lastUpdatedDate e) \<noteq> normalizeDateString ([dquote] @ lastUpdatedDate e @ [dquote])"
    using n1 n2 d by simp
  then have "toUpdate (compareEvents [e] [storedEvent ''doc-1'' (fst (mapCrmEventToUmbraco ar rnd n e p))])
      = [(storedEvent ''doc-1'' (fst (mapCrmEventToUmbraco ar rnd n e p)), e)]"
    by (simp add: compareEvents_stored)
  moreover have "lastUpdatedDate_u (storedEvent ''doc-1'' (fst (mapCrmEventToUmbraco ar rnd n e p)))
      = [dquote, dquote] @ ''2024-01-01'' @ [dquote, dquote]"
    by (simp add: storedEvent_def payloadString_mapped d)
  ultimately show ?thesis unfolding e_def by simp
qed

section \<open>Frame properties of the store operations\<close>

lemma freshVal_mono: "freshVal m v \<Longrightarrow> n \<le> m \<Longrightarrow> freshVal n v"
  by (cases v) (auto simp: freshVal_def)

lemma freshVal_prim [simp]:
  "freshVal n VUndefined" "freshVal n VNull" "freshVal n (VBool b)" "freshVal n (VNum i)"
  "freshVal n (VStr s)" "freshVal n (VRef a) = (n \<le> a)"
  by (simp_all add: freshVal_def)




lemma alloc_fresh:
  "n \<le> length h \<Longrightarrow> alloc j h = (v, h') \<Longrightarrow>
     (\<exists>ext. h' = h @ ext \<and> list_all (freshCell n) ext) \<and> freshVal n v"
  "n \<le> length h \<Longrightarrow> alloc_list js h = (vs, h') \<Longrightarrow>
     (\<exists>ext. h' = h @ ext \<and> list_all (freshCell n) ext) \<and> list_all (freshVal n) vs"
  "n \<le> length h \<Longrightarrow> alloc_fields fs h = (vfs, h') \<Longrightarrow>
     (\<exists>ext. h' = h @ ext \<and> list_all (freshCell n) ext) \<and> list_all (freshVal n) (map snd vfs)"
proof (induction j h and js h and fs h arbitrary: v h' and vs h' and vfs h'
       rule: alloc_alloc_list_alloc_fields.induct)
  case (5 xs h)
  obtain vs h1 where a: "alloc_list xs h = (vs, h1)" by (cases "alloc_list xs h")
  from 5(1) [OF 5(2) a] obtain ext where e: "h1 = h @ ext" "list_all (freshCell n) ext"
    and f: "list_all (freshVal n) vs" by blast
  from 5(3) a have v: "v = VRef (length h1)" and h': "h' = h1 @ [ArrCell vs []]" by auto
  have "h' = h @ (ext @ [ArrCell vs []])" using e h' by simp
  moreover have "list_all (freshCell n) (ext @ [ArrCell vs []])"
    using e f by (simp add: freshCell_def cellVals_def)
  moreover have "freshVal n v" using v e 5(2) by simp
  ultimately show ?case by blast
next
  case (6 fs h)
  obtain vfs h1 where a: "alloc_fields fs h = (vfs, h1)" by (cases "alloc_fields fs h")
  from 6(1) [OF 6(2) a] obtain ext where e: "h1 = h @ ext" "list_all (freshCell n) ext"
    and f: "list_all (freshVal n) (map snd vfs)" by blast
  from 6(3) a have v: "v = VRef (length h1)" and h': "h' = h1 @ [ObjCell vfs]" by auto
  have "h' = h @ (ext @ [ObjCell vfs])" using e h' by simp
  moreover have "list_all (freshCell n) (ext @ [ObjCell vfs])"
    using e f by (simp add: freshCell_def cellVals_def)
  moreover have "freshVal n v" using v e 6(2) by simp
  ultimately show ?case by blast
next
  case (8 x xs h)
  obtain v1 h1 where a: "alloc x h = (v1, h1)" by (cases "alloc x h")
  obtain vs2 h2 where b: "alloc_list xs h1 = (vs2, h2)" by (cases "alloc_list xs h1")
  from 8(1) [OF 8(3) a] obtain ext1 where e1: "h1 = h @ ext1" "list_all (freshCell n) ext1"
    and f1: "freshVal n v1" by blast
  have n1: "n \<le> length h1" using e1 8(3) by simp
  from 8(2) [OF a [symmetric] n1 b] obtain ext2 where e2: "h2 = h1 @ ext2" "list_all (freshCell n) ext2"
    and f2: "list_all (freshVal n) vs2" by blast
  from 8(4) a b have "vs = v1 # vs2" "h' = h2" by auto
  then show ?case using e1 e2 f1 f2 by auto
next
  case (10 kx fs h)
  obtain v1 h1 where a: "alloc (snd kx) h = (v1, h1)" by (cases "alloc (snd kx) h")
  obtain vs2 h2 where b: "alloc_fields fs h1 = (vs2, h2)" by (cases "alloc_fields fs h1")
  from 10(1) [OF 10(3) a] obtain ext1 where e1: "h1 = h @ ext1" "list_all (freshCell n) ext1"
    and f1: "freshVal n v1" by blast
  have n1: "n \<le> length h1" using e1 10(3) by simp
  from 10(2) [OF a [symmetric] n1 b] obtain ext2 where e2: "h2 = h1 @ ext2" "list_all (freshCell n) ext2"
    and f2: "list_all (freshVal n) (map snd vs2)" by blast
  from 10(4) a b have "vfs = (fst kx, v1) # vs2" "h' = h2" by auto
  then show ?case using e1 e2 f1 f2 by auto
qed auto


























section \<open>Properties of the update path\<close>

lemma readProp_append: "inStore h v \<Longrightarrow> readProp (h @ ext) v k = readProp h v k"
  by (cases v) (auto simp: readProp_def inStore_def nth_append)

lemma inStore_append: "inStore h v \<Longrightarrow> inStore (h @ ext) v"
  by (cases v) (auto simp: inStore_def)

lemma alloc_extends: "alloc j h = (v, h') \<Longrightarrow> \<exists>ext. h' = h @ ext"
  using alloc_fresh(1) [of 0 h j v h'] by auto

lemma alloc_fields_extends: "alloc_fields fs h = (vfs, h') \<Longrightarrow> \<exists>ext. h' = h @ ext"
  using alloc_fresh(3) [of 0 h fs vfs h'] by auto

lemma jsonClone_extends: "jsonClone h v = Inr (v', h') \<Longrightarrow> \<exists>ext. h' = h @ ext"
  by (auto simp: jsonClone_def split: sum.splits option.splits dest: alloc_extends)

lemma stringify_VNull: "stringify k h VNull = Inr (Some JNull)"
  by (cases k) simp_all

lemma stringify_VUndefined: "stringify k h VUndefined = Inr None"
  by (cases k) simp_all

lemma jsonClone_VNull: "jsonClone h VNull = Inr (VNull, h)"
  by (simp add: jsonClone_def stringify_VNull)

lemma jsonClone_VUndefined: "jsonClone h VUndefined = Inl SyntaxError"
  by (simp add: jsonClone_def stringify_VUndefined)

lemma updateLocale_VNull: "updateLocale h VNull crm target s = (Some TypeError, h)"
  by (simp add: updateLocale_def readProp_def)

lemma updatePageBlocks_english_missing:
  assumes ex: "inStore h ex"
      and en: "readProp h ex ''en-US'' = Inr VNull \<or> readProp h ex ''en-US'' = Inr VUndefined"
  shows "returned (updatePageBlocks rnd n h ex crm) = None"
proof -
  obtain sn n1 where sn: "buildSocialNetworksBlockList rnd n (socialMedia crm) = (sn, n1)"
    by (cases "buildSocialNetworksBlockList rnd n (socialMedia crm)")
  obtain s h1 where a1: "alloc sn h = (s, h1)" by (cases "alloc sn h")
  from alloc_extends [OF a1] obtain ext1 where h1: "h1 = h @ ext1" by blast
  have r1: "readProp h1 ex k = readProp h ex k" for k
    unfolding h1 by (rule readProp_append [OF ex])
  note defs = updatePageBlocks_def returned_def
  from en show ?thesis
  proof
    assume "readProp h ex ''en-US'' = Inr VUndefined"
    then show ?thesis using sn a1 r1 by (simp add: defs jsonClone_VUndefined)
  next
    assume n: "readProp h ex ''en-US'' = Inr VNull"
    show ?thesis
    proof (cases "readProp h ex ''ar''")
      case (Inl e)
      then show ?thesis using sn a1 r1 n by (simp add: defs jsonClone_VNull)
    next
      case arb: (Inr arb)
      show ?thesis
      proof (cases "jsonClone h1 arb")
        case (Inl e)
        then show ?thesis using sn a1 r1 n arb by (simp add: defs jsonClone_VNull)
      next
        case (Inr p)
        then show ?thesis using sn a1 r1 n arb
          by (cases p) (simp add: defs jsonClone_VNull updateLocale_VNull)
      qed
    qed
  qed
qed

lemma updatePageBlocks_arabic_missing:
  assumes ex: "inStore h ex"
      and ar: "readProp h ex ''ar'' = Inr VNull \<or> readProp h ex ''ar'' = Inr VUndefined"
  shows "returned (updatePageBlocks rnd n h ex crm) = None"
proof -
  obtain sn n1 where sn: "buildSocialNetworksBlockList rnd n (socialMedia crm) = (sn, n1)"
    by (cases "buildSocialNetworksBlockList rnd n (socialMedia crm)")
  obtain s h1 where a1: "alloc sn h = (s, h1)" by (cases "alloc sn h")
  from alloc_extends [OF a1] obtain ext1 where h1: "h1 = h @ ext1" by blast
  have r1: "readProp h1 ex k = readProp h ex k" for k
    unfolding h1 by (rule readProp_append [OF ex])
  note defs = updatePageBlocks_def returned_def
  show ?thesis
  proof (cases "readProp h ex ''en-US''")
    case (Inl e)
    then show ?thesis using sn a1 r1 by (simp add: defs)
  next
    case en: (Inr en)
    show ?thesis
    proof (cases "jsonClone h1 en")
      case (Inl e)
      then show ?thesis using sn a1 r1 en by (simp add: defs)
    next
      case (Inr p2)
      obtain uen h2 where p2: "p2 = (uen, h2)" by (cases p2)
      have c2: "jsonClone h1 en = Inr (uen, h2)" using Inr p2 by simp
      from jsonClone_extends [OF c2] obtain ext2 where h2: "h2 = h @ (ext1 @ ext2)"
        using h1 by auto
      have r2: "readProp h2 ex k = readProp h ex k" for k
        unfolding h2 by (rule readProp_append [OF ex])
      from ar show ?thesis
      proof
        assume "readProp h ex ''ar'' = Inr VUndefined"
        then show ?thesis using sn a1 r1 en c2 r2 by (simp add: defs jsonClone_VUndefined)
      next
        assume n: "readProp h ex ''ar'' = Inr VNull"
        obtain e4 h4 where u4: "updateLocale h2 uen crm JNull s = (e4, h4)"
          by (cases "updateLocale h2 uen crm JNull s")
        show ?thesis
          using sn a1 r1 en c2 r2 n u4
          by (cases e4) (simp_all add: defs jsonClone_VNull updateLocale_VNull)
      qed
    qed
  qed
qed


text \<open>Evaluation of the store operations on the sample inputs.\<close>

lemmas json_defs = sampleLocaleBlocks_def blockList_def heroImageBlock_def richText_def invariant_def
  linkItem_def localized_def

lemmas store_defs = readProp_def readIndex1_def writeProp_def deleteProp_def truthy_def jsonClone_def
  updateLocale_def updateEventDescBlock_def

lemma stringify_numeral:
  "stringify (numeral k) h v =
     (case v of
        VUndefined \<Rightarrow> Inr None
      | VNull \<Rightarrow> Inr (Some JNull)
      | VBool b \<Rightarrow> Inr (Some (JBool b))
      | VNum i \<Rightarrow> Inr (Some (JNum i))
      | VStr s \<Rightarrow> Inr (Some (JStr s))
      | VRef a \<Rightarrow>
          if a < length h
          then (case h ! a of
                  ObjCell fs \<Rightarrow>
                    (case stringify_fields (stringify (pred_numeral k) h) fs of
                       Inl e \<Rightarrow> Inl e | Inr js \<Rightarrow> Inr (Some (JObj js)))
                | ArrCell vs ps \<Rightarrow>
                    (case stringify_elements (stringify (pred_numeral k) h) vs of
                       Inl e \<Rightarrow> Inl e | Inr js \<Rightarrow> Inr (Some (JArr js))))
          else Inl TypeError)"
  by (simp add: numeral_eq_Suc)

lemma social_sample:
  "buildSocialNetworksBlockList zeroRandom n sampleSocialMedia =
     (blockList [''umb://element/00000000000040008000000000000000'',
                 ''umb://element/00000000000040008000000000000000'']
        [socialNetworkBlock ''umb://element/00000000000040008000000000000000'' ''Facebook''
           ''https://facebook.com/dec'',
         socialNetworkBlock ''umb://element/00000000000040008000000000000000'' ''TikTok''
           ''https://tiktok.com/@dec''], n + 62)"
  unfolding buildSocialNetworksBlockList_eq populated_sample
  by (simp add: drawnUdis_2 generateGuid_zeroRandom removeHyphens_def elementUdi_def
        sampleSocialMedia_def)

text \<open>
  The guard of a locale: without \<open>contentData\<close>, or without a truthy element 1 in it,
  the clone of the locale is left as it is.
\<close>

lemma updateLocale_skips:
  "readProp h blocks ''contentData'' = Inr cd \<Longrightarrow> \<not> truthy cd
     \<Longrightarrow> updateLocale h blocks crm target s = (None, h)"
  "readProp h blocks ''contentData'' = Inr cd \<Longrightarrow> readIndex1 h cd = Inr b \<Longrightarrow> \<not> truthy b
     \<Longrightarrow> updateLocale h blocks crm target s = (None, h)"
  by (simp_all add: updateLocale_def)

text \<open>
  With \<open>updatePageBlocks_english_missing\<close> and \<open>updatePageBlocks_arabic_missing\<close>: in
  every store, for every CRM event and random source, existing page blocks one of whose
  locales is \<open>null\<close> or absent make \<open>updatePageBlocks\<close>, and with it
  \<open>mapCrmEventForUpdate\<close>, raise.
\<close>

lemma mapCrmEventForUpdate_locale_missing:
  assumes ex: "inStore h ex" and pb: "readProp h ex ''pageBlocks'' = Inr pb"
      and t: "truthy pb" and i: "inStore h pb"
      and m: "readProp h pb ''en-US'' = Inr VNull \<or> readProp h pb ''en-US'' = Inr VUndefined
              \<or> readProp h pb ''ar'' = Inr VNull \<or> readProp h pb ''ar'' = Inr VUndefined"
  shows "returned (mapCrmEventForUpdate ar rnd n h crm ex) = None"
proof -
  obtain sn n1 where sn: "buildSocialNetworksBlockList rnd n (socialMedia crm) = (sn, n1)"
    by (cases "buildSocialNetworksBlockList rnd n (socialMedia crm)")
  obtain props h1 where a1: "alloc_fields ((''name'', localized (JStr (title crm))) # eventFields crm sn) h = (props, h1)"
    by (cases "alloc_fields ((''name'', localized (JStr (title crm))) # eventFields crm sn) h")
  from alloc_fields_extends [OF a1] obtain ext1 where h1: "h1 = h @ ext1" by blast
  have r1: "readProp h1 ex ''pageBlocks'' = Inr pb"
    unfolding h1 using readProp_append [OF ex] pb by simp
  have i1: "inStore h1 pb" unfolding h1 by (rule inStore_append [OF i])
  have r2: "readProp h1 pb k = readProp h pb k" for k
    unfolding h1 by (rule readProp_append [OF i])
  have "returned (updatePageBlocks rnd n1 h1 pb crm) = None"
    using m updatePageBlocks_english_missing [OF i1, of rnd n1 crm]
      updatePageBlocks_arabic_missing [OF i1, of rnd n1 crm]
    unfolding r2 by blast
  then show ?thesis
    using sn a1 r1 t
    by (auto simp: mapCrmEventForUpdate_def returned_def split: sum.splits prod.splits)
qed


lemma updatePageBlocks_sample_merged:
  "stringify 75 (storeOf (updatePageBlocks zeroRandom 0 sampleStore (VRef 23) sampleCrmEvent)) (VRef 74)
     = Inr (Some (JObj
         [(''en-US'',
           blockList [''umb://element/aa'', ''umb://element/bb'']
             [heroImageBlock ''umb://element/aa'',
              JObj [(''contentTypeKey'', JStr ''163c1761-234c-41f4-92e5-9d3d26186b79''),
                    (''udi'', JStr ''umb://element/bb''),
                    (''organiserLogo'', JArr []),
                    (''organiserName'', JStr ''DEC''),
                    (''description'', richText ''<p>Welcome</p>''),
                    (''organiserWebsite'',
                     JArr [linkItem ''icon-link'' JNull JNull JNull JNull ''https://example.org'']),
                    (''socialNetworks'',
                     fst (buildSocialNetworksBlockList zeroRandom 0 sampleSocialMedia))]]),
          (''ar'',
           blockList [''umb://element/cc'', ''umb://element/dd'']
             [heroImageBlock ''umb://element/cc'',
              JObj [(''contentTypeKey'', JStr ''163c1761-234c-41f4-92e5-9d3d26186b79''),
                    (''udi'', JStr ''umb://element/dd''),
                    (''organiserLogo'', JArr []),
                    (''organiserName'', JStr ''DEC''),
                    (''description'', richText ''<p>Welcome</p>''),
                    (''organiserWebsite'',
                     JArr [linkItem ''icon-link'' JNull JNull (JStr ''_blank'') JNull
                             ''https://example.org'']),
                    (''socialNetworks'',
                     fst (buildSocialNetworksBlockList zeroRandom 0 sampleSocialMedia))]])]))"
  by (simp add: storeOf_def updatePageBlocks_def social_sample sampleStore_def sampleExistingEvent_def
        json_defs store_defs stringify_numeral socialNetworkBlock_def sampleCrmEvent_def
        nth_append truthyStr_def strOr_def)

text \<open>
  C5.  The merge raises where a locale of the existing page blocks is missing.  The
  guard of \<open>updatePageBlocks\<close> reads \<open>contentData\<close> of the clone of each locale; it
  covers a locale without \<open>contentData\<close> or without an element 1, but not a locale that
  is itself \<open>null\<close> or absent.  Two CMS events, the sample event with \<open>ar\<close> set to
  \<open>null\<close> and with no \<open>ar\<close> at all: each store holds the document, its page blocks are
  at reference 12, and \<open>updatePageBlocks\<close> on them with the sample CRM event raises, a
  \<open>TypeError\<close> (reading \<open>contentData\<close> of \<open>null\<close>) and a \<open>SyntaxError\<close>
  (\<open>JSON.parse\<close> of \<open>undefined\<close>).  In both documents the event-description position
  does not exist in the Arabic structure, and the blocks of that locale are not returned
  unchanged: nothing is returned, neither by \<open>updatePageBlocks\<close> nor by
  \<open>mapCrmEventForUpdate\<close> on the CMS event.
\<close>

theorem C5_missing_locale_raises:
  "stringify 14 storeWithoutArabic storedEventWithoutArabic = Inr (Some sampleEventWithoutArabic)
   \<and> readProp storeWithoutArabic storedEventWithoutArabic ''pageBlocks'' = Inr (VRef 12)
   \<and> readProp storeWithoutArabic (VRef 12) ''ar'' = Inr VNull
   \<and> fst (updatePageBlocks zeroRandom 0 storeWithoutArabic (VRef 12) sampleCrmEvent) = Inl TypeError
   \<and> stringify 14 storeEnglishOnly storedEventEnglishOnly = Inr (Some sampleEventEnglishOnly)
   \<and> readProp storeEnglishOnly storedEventEnglishOnly ''pageBlocks'' = Inr (VRef 12)
   \<and> readProp storeEnglishOnly (VRef 12) ''ar'' = Inr VUndefined
   \<and> fst (updatePageBlocks zeroRandom 0 storeEnglishOnly (VRef 12) sampleCrmEvent) = Inl SyntaxError
   \<and> returned (mapCrmEventForUpdate sampleArabicText zeroRandom 0 storeWithoutArabic sampleCrmEvent
                  storedEventWithoutArabic) = None
   \<and> returned (mapCrmEventForUpdate sampleArabicText zeroRandom 0 storeEnglishOnly sampleCrmEvent
                  storedEventEnglishOnly) = None"
proof (intro conjI)
  have t: "truthy (VRef 12)" by (simp add: truthy_def)
  have n: "inStore storeWithoutArabic storedEventWithoutArabic" "inStore storeWithoutArabic (VRef 12)"
    by (simp_all add: inStore_def storeWithoutArabic_def storedEventWithoutArabic_def
          sampleEventWithoutArabic_def json_defs)
  have pn: "readProp storeWithoutArabic storedEventWithoutArabic ''pageBlocks'' = Inr (VRef 12)"
    by (simp add: storeWithoutArabic_def storedEventWithoutArabic_def sampleEventWithoutArabic_def
          json_defs readProp_def)
  have an: "readProp storeWithoutArabic (VRef 12) ''ar'' = Inr VNull"
    by (simp add: storeWithoutArabic_def sampleEventWithoutArabic_def json_defs readProp_def)
  show "returned (mapCrmEventForUpdate sampleArabicText zeroRandom 0 storeWithoutArabic sampleCrmEvent
                  storedEventWithoutArabic) = None"
    using mapCrmEventForUpdate_locale_missing [OF n(1) pn t n(2)] an by blast
  have e: "inStore storeEnglishOnly storedEventEnglishOnly" "inStore storeEnglishOnly (VRef 12)"
    by (simp_all add: inStore_def storeEnglishOnly_def storedEventEnglishOnly_def
          sampleEventEnglishOnly_def json_defs)
  have pe: "readProp storeEnglishOnly storedEventEnglishOnly ''pageBlocks'' = Inr (VRef 12)"
    by (simp add: storeEnglishOnly_def storedEventEnglishOnly_def sampleEventEnglishOnly_def
          json_defs readProp_def)
  have ae: "readProp storeEnglishOnly (VRef 12) ''ar'' = Inr VUndefined"
    by (simp add: storeEnglishOnly_def sampleEventEnglishOnly_def json_defs readProp_def)
  show "returned (mapCrmEventForUpdate sampleArabicText zeroRandom 0 storeEnglishOnly sampleCrmEvent
                  storedEventEnglishOnly) = None"
    using mapCrmEventForUpdate_locale_missing [OF e(1) pe t e(2)] ae by blast
next
  show "stringify 14 storeWithoutArabic storedEventWithoutArabic = Inr (Some sampleEventWithoutArabic)"
    by (simp add: storeWithoutArabic_def storedEventWithoutArabic_def sampleEventWithoutArabic_def
          json_defs stringify_numeral)
  show "readProp storeWithoutArabic storedEventWithoutArabic ''pageBlocks'' = Inr (VRef 12)"
    by (simp add: storeWithoutArabic_def storedEventWithoutArabic_def sampleEventWithoutArabic_def
          json_defs readProp_def)
  show "readProp storeWithoutArabic (VRef 12) ''ar'' = Inr VNull"
    by (simp add: storeWithoutArabic_def sampleEventWithoutArabic_def json_defs readProp_def)
  show "fst (updatePageBlocks zeroRandom 0 storeWithoutArabic (VRef 12) sampleCrmEvent) = Inl TypeError"
    by (simp add: updatePageBlocks_def social_sample storeWithoutArabic_def sampleEventWithoutArabic_def
        json_defs store_defs stringify_numeral socialNetworkBlock_def sampleCrmEvent_def
        nth_append truthyStr_def strOr_def)
  show "stringify 14 storeEnglishOnly storedEventEnglishOnly = Inr (Some sampleEventEnglishOnly)"
    by (simp add: storeEnglishOnly_def storedEventEnglishOnly_def sampleEventEnglishOnly_def
          json_defs stringify_numeral)
  show "readProp storeEnglishOnly storedEventEnglishOnly ''pageBlocks'' = Inr (VRef 12)"
    by (simp add: storeEnglishOnly_def storedEventEnglishOnly_def sampleEventEnglishOnly_def
          json_defs readProp_def)
  show "readProp storeEnglishOnly (VRef 12) ''ar'' = Inr VUndefined"
    by (simp add: storeEnglishOnly_def sampleEventEnglishOnly_def json_defs readProp_def)
  show "fst (updatePageBlocks zeroRandom 0 storeEnglishOnly (VRef 12) sampleCrmEvent) = Inl SyntaxError"
    by (simp add: updatePageBlocks_def social_sample storeEnglishOnly_def sampleEventEnglishOnly_def
        json_defs store_defs stringify_numeral socialNetworkBlock_def sampleCrmEvent_def
        nth_append truthyStr_def strOr_def)
qed



text \<open>
  The writes of the merge are in place: applied to the English blocks of the sample CMS
  event themselves (reference 11) and not to a clone of them, the update of a locale
  changes the event-description block of the existing document (reference 8).
\<close>

lemma updateLocale_in_place:
  "readProp sampleStore (VRef 23) ''en-US'' = Inr (VRef 11)
   \<and> readProp sampleStore (VRef 11) ''contentData'' = Inr (VRef 9)
   \<and> readIndex1 sampleStore (VRef 9) = Inr (VRef 8)
   \<and> readProp sampleStore (VRef 8) ''organiserName'' = Inr (VStr ''Old organiser'')
   \<and> fst (updateLocale sampleStore (VRef 11) sampleCrmEvent JNull VNull) = None
   \<and> readProp (snd (updateLocale sampleStore (VRef 11) sampleCrmEvent JNull VNull)) (VRef 8)
         ''organiserName'' = Inr (VStr ''DEC'')"
  by (simp add: sampleStore_def sampleExistingEvent_def json_defs store_defs sampleCrmEvent_def
        nth_append truthyStr_def strOr_def)




end
